theory Spec2Isabelle
  imports Main "HOL-Library.AList"
begin

section \<open>JavaScript values\<close>

text \<open>
  The module \<^verbatim>\<open>src/requests/request.js\<close> is untyped JavaScript: header names, header
  values, custom properties and client credentials are arbitrary values. The model keeps
  the kinds of value on which the code's tests (\<^verbatim>\<open>!x\<close>, \<^verbatim>\<open>isString\<close>, \<^verbatim>\<open>isPlainObject\<close>,
  \<^verbatim>\<open>String(x)\<close>, \<^verbatim>\<open>JSON.stringify(x)\<close>) differ.

  \<^item> A string is held as the list of its UTF-8 bytes, so \<open>length\<close> is its encoded byte
    count. \<open>toUpperCase\<close> and \<open>trim\<close> below are the ASCII part of the methods of that name.
  \<^item> \<open>Num i\<close> is the number with the integer value \<open>i\<close>, for \<open>i\<close> from \<open>-(2^53 - 1)\<close> to
    \<open>2^53 - 1\<close>: these are numbers of the language, and they print as their decimal digits.
    The predicate \<open>representable\<close> below says that a value holds no other integer.
    Fractions, \<^verbatim>\<open>NaN\<close> and the infinities are not represented.
  \<^item> \<open>StrObj s\<close> is a String object, \<^verbatim>\<open>new String(s)\<close>: an object, so truthy even when \<open>s\<close> is
    empty, that \<^verbatim>\<open>lodash/isString\<close> accepts like a primitive string. Number and Boolean
    objects are not represented.
  \<^item> \<open>Sym d\<close> is a symbol with description \<open>d\<close>: a truthy value that is not a string
    and for which \<^verbatim>\<open>JSON.stringify\<close> returns \<^verbatim>\<open>undefined\<close> (functions behave the same way
    there; they are not represented, so no value of the model is callable).
  \<^item> \<open>Obj kvs\<close> is a plain object with the own enumerable properties \<open>kvs\<close>, listed in
    the order \<^verbatim>\<open>Object.keys\<close> enumerates them, each key once.
\<close>

datatype jsval =
    Undefined
  | Null
  | Bool bool
  | Num int
  | Str string
  | StrObj string
  | Sym string
  | Arr "jsval list"
  | Obj "(string \<times> jsval) list"

text \<open>
  Exceptions. \<open>Error m\<close> is \<^verbatim>\<open>new Error(m)\<close>; \<open>TypeError\<close> and \<open>RangeError\<close> are the
  engine's own (a property read on \<^verbatim>\<open>undefined\<close>, a call of something that is not a
  function, an exhausted call stack).
\<close>

datatype error = Error string | NoActiveUserError string | TypeError | RangeError

fun truthy :: "jsval \<Rightarrow> bool" where
  "truthy Undefined = False"
| "truthy Null = False"
| "truthy (Bool b) = b"
| "truthy (Num i) = (i \<noteq> 0)"
| "truthy (Str s) = (s \<noteq> [])"
| "truthy (StrObj s) = True"
| "truthy (Sym d) = True"
| "truthy (Arr xs) = True"
| "truthy (Obj kvs) = True"

text \<open>\<^verbatim>\<open>lodash/isString\<close>: a primitive string or a String object.\<close>

fun isString :: "jsval \<Rightarrow> bool" where
  "isString (Str s) = True"
| "isString (StrObj s) = True"
| "isString v = False"

fun isPlainObject :: "jsval \<Rightarrow> bool" where
  "isPlainObject (Obj kvs) = True"
| "isPlainObject v = False"

text \<open>\<^verbatim>\<open>lodash/isNumber\<close>.\<close>

fun isNumber :: "jsval \<Rightarrow> bool" where
  "isNumber (Num i) = True"
| "isNumber v = False"

text \<open>
  \<^verbatim>\<open>lodash/isEmpty\<close>: a collection is empty when it has no element or own enumerable key; a
  value that is no collection counts as empty.
\<close>

fun isEmpty :: "jsval \<Rightarrow> bool" where
  "isEmpty (Str s) = (s = [])"
| "isEmpty (StrObj s) = (s = [])"
| "isEmpty (Arr xs) = (xs = [])"
| "isEmpty (Obj kvs) = (kvs = [])"
| "isEmpty v = True"

subsection \<open>Numbers and strings\<close>

fun digits :: "nat \<Rightarrow> string" where
  "digits n =
     (if n < 10 then [char_of (48 + n)]
      else digits (n div 10) @ [char_of (48 + n mod 10)])"

declare digits.simps [simp del]

text \<open>
  The decimal digits of an integer, which is how the language prints a number from
  \<open>-(2^53 - 1)\<close> to \<open>2^53 - 1\<close>.
\<close>

definition show_int :: "int \<Rightarrow> string" where
  "show_int i = (if i < 0 then CHR ''-'' # digits (nat (- i)) else digits (nat i))"

text \<open>
  \<^verbatim>\<open>String.prototype.toLowerCase\<close> is the case mapping of the Unicode standard, a function of
  the string alone. The methods that call it take it as a parameter \<open>lower\<close>, and what is
  proved of them holds for every function. \<open>lower_ascii\<close> is the mapping on the ASCII
  letters, with which \<^verbatim>\<open>toLowerCase\<close> agrees on a string of ASCII characters; it stands in for
  \<open>lower\<close> where a statement is evaluated at such names.
\<close>

definition lower_ascii :: "string \<Rightarrow> string" where
  "lower_ascii s =
     map (\<lambda>c. if 65 \<le> (of_char c :: nat) \<and> (of_char c :: nat) \<le> 90
              then char_of ((of_char c :: nat) + 32) else c) s"

definition toUpperCase :: "string \<Rightarrow> string" where
  "toUpperCase s =
     map (\<lambda>c. if 97 \<le> (of_char c :: nat) \<and> (of_char c :: nat) \<le> 122
              then char_of ((of_char c :: nat) - 32) else c) s"

text \<open>\<^verbatim>\<open>String.prototype.trim\<close>, on the ASCII white space (tab to carriage return, space).\<close>

definition isSpace :: "char \<Rightarrow> bool" where
  "isSpace c = ((9 \<le> (of_char c :: nat) \<and> (of_char c :: nat) \<le> 13) \<or> (of_char c :: nat) = 32)"

definition trim :: "string \<Rightarrow> string" where
  "trim s = rev (dropWhile isSpace (rev (dropWhile isSpace s)))"

text \<open>
  The abstract operation ToString, which a template literal and \<^verbatim>\<open>Array.prototype.join\<close>
  apply: it throws a TypeError on a symbol and gives the string of a String object. An array is joined with commas, \<^verbatim>\<open>null\<close> and
  \<^verbatim>\<open>undefined\<close> elements giving the empty string. A plain object gives
  \<^verbatim>\<open>[object Object]\<close>, unless an own property \<^verbatim>\<open>toString\<close> shadows the inherited method;
  that property is not callable in this model, which is a TypeError.
\<close>

fun ToString :: "jsval \<Rightarrow> error + string"
  and join_elems :: "jsval list \<Rightarrow> error + string" where
  "ToString Undefined = Inr ''undefined''"
| "ToString Null = Inr ''null''"
| "ToString (Bool b) = Inr (if b then ''true'' else ''false'')"
| "ToString (Num i) = Inr (show_int i)"
| "ToString (Str s) = Inr s"
| "ToString (StrObj s) = Inr s"
| "ToString (Sym d) = Inl TypeError"
| "ToString (Arr xs) = join_elems xs"
| "ToString (Obj kvs) =
     (if map_of kvs ''toString'' = None then Inr ''[object Object]'' else Inl TypeError)"
| "join_elems [] = Inr []"
| "join_elems (x # xs) =
     (case (if x = Undefined \<or> x = Null then Inr [] else ToString x) of
        Inl e \<Rightarrow> Inl e
      | Inr s \<Rightarrow>
          if xs = [] then Inr s
          else (case join_elems xs of Inl e \<Rightarrow> Inl e | Inr r \<Rightarrow> Inr (s @ '','' @ r)))"

text \<open>The call \<^verbatim>\<open>String(v)\<close>: ToString, except that a symbol is described.\<close>

definition String_call :: "jsval \<Rightarrow> error + string" where
  "String_call v = (case v of Sym d \<Rightarrow> Inr (''Symbol('' @ d @ '')'') | _ \<Rightarrow> ToString v)"

subsection \<open>JSON.stringify\<close>

definition hexdigit :: "nat \<Rightarrow> char" where
  "hexdigit n = (if n < 10 then char_of (48 + n) else char_of (87 + n))"

text \<open>
  QuoteJSONString: the quotation mark and the reverse solidus are escaped, the control
  characters get their short escape or \<^verbatim>\<open>\u00XX\<close>; every other byte is kept.
\<close>

definition json_escape :: "char \<Rightarrow> string" where
  "json_escape c =
     (let n = (of_char c :: nat) in
      if n = 34 then [char_of (92::nat), char_of (34::nat)]
      else if n = 92 then [char_of (92::nat), char_of (92::nat)]
      else if n = 8 then [char_of (92::nat), CHR ''b'']
      else if n = 9 then [char_of (92::nat), CHR ''t'']
      else if n = 10 then [char_of (92::nat), CHR ''n'']
      else if n = 12 then [char_of (92::nat), CHR ''f'']
      else if n = 13 then [char_of (92::nat), CHR ''r'']
      else if n < 32 then [char_of (92::nat), CHR ''u'', CHR ''0'', CHR ''0'',
                           hexdigit (n div 16), hexdigit (n mod 16)]
      else [c])"

definition json_quote :: "string \<Rightarrow> string" where
  "json_quote s = char_of (34::nat) # concat (map json_escape s) @ [char_of (34::nat)]"

fun join_with :: "string \<Rightarrow> string list \<Rightarrow> string" where
  "join_with sep [] = []"
| "join_with sep [s] = s"
| "join_with sep (s # t # ts) = s @ sep @ join_with sep (t # ts)"

text \<open>
  \<^verbatim>\<open>JSON.stringify(v)\<close> with no replacer and no indentation; \<open>None\<close> is the result
  \<^verbatim>\<open>undefined\<close>. An array element without a JSON form is written \<^verbatim>\<open>null\<close>, an object
  member without one is left out.
\<close>

fun JSON_stringify :: "jsval \<Rightarrow> string option"
  and stringify_elems :: "jsval list \<Rightarrow> string list"
  and stringify_members :: "(string \<times> jsval) list \<Rightarrow> string list" where
  "JSON_stringify Undefined = None"
| "JSON_stringify Null = Some ''null''"
| "JSON_stringify (Bool b) = Some (if b then ''true'' else ''false'')"
| "JSON_stringify (Num i) = Some (show_int i)"
| "JSON_stringify (Str s) = Some (json_quote s)"
| "JSON_stringify (StrObj s) = Some (json_quote s)"
| "JSON_stringify (Sym d) = None"
| "JSON_stringify (Arr xs) = Some (''['' @ join_with '','' (stringify_elems xs) @ '']'')"
| "JSON_stringify (Obj kvs) = Some (''{'' @ join_with '','' (stringify_members kvs) @ ''}'')"
| "stringify_elems [] = []"
| "stringify_elems (x # xs) =
     (case JSON_stringify x of None \<Rightarrow> ''null'' | Some s \<Rightarrow> s) # stringify_elems xs"
| "stringify_members [] = []"
| "stringify_members (kv # kvs) =
     (case JSON_stringify (snd kv) of
        None \<Rightarrow> stringify_members kvs
      | Some s \<Rightarrow> (json_quote (fst kv) @ '':'' @ s) # stringify_members kvs)"

text \<open>
  Reading a named property \<^verbatim>\<open>v.k\<close>: a TypeError on \<^verbatim>\<open>undefined\<close> and \<^verbatim>\<open>null\<close>, the
  own property of a plain object, and \<^verbatim>\<open>undefined\<close> where there is none. The names the
  module reads this way (\<^verbatim>\<open>appKey\<close>, \<^verbatim>\<open>appSecret\<close>, \<^verbatim>\<open>masterSecret\<close>, \<^verbatim>\<open>activeUser\<close>,
  \<^verbatim>\<open>_kmd\<close>, \<^verbatim>\<open>authtoken\<close>, \<^verbatim>\<open>toJSON\<close>) are not properties of a primitive or an array.
\<close>

fun get_prop :: "jsval \<Rightarrow> string \<Rightarrow> error + jsval" where
  "get_prop Undefined k = Inl TypeError"
| "get_prop Null k = Inl TypeError"
| "get_prop (Obj kvs) k = Inr (case map_of kvs k of None \<Rightarrow> Undefined | Some v \<Rightarrow> v)"
| "get_prop v k = Inr Undefined"

text \<open>
  The values that stand for a value of the language as the sections above read them:
  every number is an integer from \<open>-(2^53 - 1)\<close> to \<open>2^53 - 1\<close>, and the keys of an object are
  distinct and none is made of digits only, so that \<^verbatim>\<open>Object.keys\<close> and \<^verbatim>\<open>JSON.stringify\<close> go
  through them in the order of the list.
\<close>

definition digits_only :: "string \<Rightarrow> bool" where
  "digits_only s =
     (s \<noteq> [] \<and> list_all (\<lambda>c. 48 \<le> (of_char c :: nat) \<and> (of_char c :: nat) \<le> 57) s)"

fun representable :: "jsval \<Rightarrow> bool"
  and representable_elems :: "jsval list \<Rightarrow> bool"
  and representable_members :: "(string \<times> jsval) list \<Rightarrow> bool" where
  "representable (Num i) = (- 9007199254740991 \<le> i \<and> i \<le> 9007199254740991)"
| "representable (Arr xs) = representable_elems xs"
| "representable (Obj kvs) =
     (distinct (map fst kvs) \<and> list_all (\<lambda>kv. \<not> digits_only (fst kv)) kvs \<and>
      representable_members kvs)"
| "representable v = True"
| "representable_elems [] = True"
| "representable_elems (x # xs) = (representable x \<and> representable_elems xs)"
| "representable_members [] = True"
| "representable_members (kv # kvs) = (representable (snd kv) \<and> representable_members kvs)"

section \<open>The class Headers\<close>

text \<open>
  An instance has one field, \<^verbatim>\<open>this.headers\<close>: \<open>None\<close> while it has never been assigned
  (every method reads it as \<^verbatim>\<open>this.headers || {}\<close>), otherwise a plain object, held as
  the list of its entries in the order they were added. \<^verbatim>\<open>Object.keys\<close> lists keys that
  are array indices before the others; two keys that are equal up to case are either both
  such an index, and then the same key, or both none, so the first match of the scan in
  \<^verbatim>\<open>get\<close> is the same in either order.
\<close>

record Headers =
  headers :: "(string \<times> jsval) list option"

definition entries :: "Headers \<Rightarrow> (string \<times> jsval) list" where
  "entries h = (case headers h of None \<Rightarrow> [] | Some kvs \<Rightarrow> kvs)"

text \<open>
  The conversion the methods apply to a name:
  \<^verbatim>\<open>if (!isString(name)) { name = String(name); }\<close>. A String object passes \<^verbatim>\<open>isString\<close> and
  stays as it is; as a property key, and under the string methods, it is its string.
\<close>

definition name_string :: "jsval \<Rightarrow> error + string" where
  "name_string name =
     (case name of Str s \<Rightarrow> Inr s | StrObj s \<Rightarrow> Inr s | _ \<Rightarrow> String_call name)"

text \<open>The loop of \<^verbatim>\<open>get\<close> over \<^verbatim>\<open>Object.keys(headers)\<close>.\<close>

fun get_loop ::
  "(string \<Rightarrow> string) \<Rightarrow> (string \<times> jsval) list \<Rightarrow> string \<Rightarrow> string list \<Rightarrow> jsval" where
  "get_loop lower hs name [] = Undefined"
| "get_loop lower hs name (key # keys) =
     (if lower key = lower name
      then (case map_of hs key of None \<Rightarrow> Undefined | Some v \<Rightarrow> v)
      else get_loop lower hs name keys)"

definition Headers_get :: "(string \<Rightarrow> string) \<Rightarrow> Headers \<Rightarrow> jsval \<Rightarrow> error + jsval" where
  "Headers_get lower h name =
     (if truthy name then
        (case name_string name of
           Inl e \<Rightarrow> Inl e
         | Inr n \<Rightarrow> Inr (get_loop lower (entries h) n (map fst (entries h))))
      else Inr Undefined)"

text \<open>
  \<^verbatim>\<open>set\<close> assigns \<^verbatim>\<open>headers[name]\<close>: an existing key keeps its place, a new one is added
  last. A value that passes \<^verbatim>\<open>isString\<close> is assigned as it is, any other as the result of
  \<^verbatim>\<open>JSON.stringify\<close>. Assigning to the key \<^verbatim>\<open>__proto__\<close> runs the inherited setter and
  creates no own property: the setter ignores a string and \<^verbatim>\<open>undefined\<close>, and makes a
  String object the prototype of the map, which is not part of the state held here.
\<close>

definition header_text :: "jsval \<Rightarrow> jsval" where
  "header_text v =
     (if \<not> isString v then (case JSON_stringify v of None \<Rightarrow> Undefined | Some s \<Rightarrow> Str s)
      else v)"

definition Headers_set :: "Headers \<Rightarrow> jsval \<Rightarrow> jsval \<Rightarrow> error + Headers" where
  "Headers_set h name v =
     (if \<not> truthy name \<or> \<not> truthy v
      then Inl (Error ''A name and value must be provided to set a header.'')
      else (case name_string name of
              Inl e \<Rightarrow> Inl e
            | Inr n \<Rightarrow>
                Inr (h\<lparr>headers :=
                       Some (if n = ''__proto__'' then entries h
                             else AList.update n (header_text v) (entries h))\<rparr>)))"

definition Headers_has :: "(string \<Rightarrow> string) \<Rightarrow> Headers \<Rightarrow> jsval \<Rightarrow> error + bool" where
  "Headers_has lower h name =
     (case Headers_get lower h name of Inl e \<Rightarrow> Inl e | Inr v \<Rightarrow> Inr (truthy v))"

text \<open>
  The class has no method \<^verbatim>\<open>setHeader\<close>: \<^verbatim>\<open>this.setHeader\<close> is \<^verbatim>\<open>undefined\<close>, and calling
  it throws a TypeError.
\<close>

definition Headers_setHeader :: "Headers \<Rightarrow> jsval \<Rightarrow> jsval \<Rightarrow> error + Headers" where
  "Headers_setHeader h name v = Inl TypeError"

fun addAll_forEach :: "Headers \<Rightarrow> (string \<times> jsval) list \<Rightarrow> string list \<Rightarrow> error + Headers" where
  "addAll_forEach h kvs [] = Inr h"
| "addAll_forEach h kvs (name # names) =
     (case Headers_setHeader h (Str name)
             (case map_of kvs name of None \<Rightarrow> Undefined | Some v \<Rightarrow> v) of
        Inl e \<Rightarrow> Inl e
      | Inr h' \<Rightarrow> addAll_forEach h' kvs names)"

text \<open>The own enumerable properties of a value that has passed \<^verbatim>\<open>isPlainObject\<close>.\<close>

definition own_properties :: "jsval \<Rightarrow> (string \<times> jsval) list" where
  "own_properties v = (case v of Obj kvs \<Rightarrow> kvs | _ \<Rightarrow> [])"

definition Headers_addAll :: "Headers \<Rightarrow> jsval \<Rightarrow> error + Headers" where
  "Headers_addAll h arg =
     (if \<not> isPlainObject arg then Inl (Error ''Headers argument must be an object.'')
      else addAll_forEach h (own_properties arg) (map fst (own_properties arg)))"

text \<open>\<^verbatim>\<open>constructor(headers = {})\<close>: the default stands in for \<^verbatim>\<open>undefined\<close> only.\<close>

definition Headers_new :: "jsval \<Rightarrow> error + Headers" where
  "Headers_new arg =
     Headers_addAll \<lparr>headers = None\<rparr> (if arg = Undefined then Obj [] else arg)"

definition Headers_remove :: "Headers \<Rightarrow> jsval \<Rightarrow> error + Headers" where
  "Headers_remove h name =
     (if truthy name then
        (case name_string name of
           Inl e \<Rightarrow> Inl e
         | Inr n \<Rightarrow> Inr (h\<lparr>headers := Some (AList.delete n (entries h))\<rparr>))
      else Inr h)"

definition Headers_clear :: "Headers \<Rightarrow> Headers" where
  "Headers_clear h = h\<lparr>headers := Some []\<rparr>"

definition Headers_toJSON :: "Headers \<Rightarrow> jsval" where
  "Headers_toJSON h = (case headers h of None \<Rightarrow> Undefined | Some kvs \<Rightarrow> Obj kvs)"

text \<open>
  The instances a caller can build: a constructor call, then method calls that return,
  with representable arguments. A call of \<^verbatim>\<open>set\<close> with the name \<^verbatim>\<open>__proto__\<close> is left out:
  with a string or a value that \<^verbatim>\<open>JSON.stringify\<close> handles it stores nothing and leaves the
  instance as \<^verbatim>\<open>clear\<close> or no call would, and with a String object it replaces the
  prototype of the map.
\<close>

inductive Headers_reachable :: "Headers \<Rightarrow> bool" where
  reach_new: "Headers_new arg = Inr h \<Longrightarrow> Headers_reachable h"
| reach_set: "Headers_reachable h \<Longrightarrow> representable name \<Longrightarrow> representable v \<Longrightarrow>
     name_string name \<noteq> Inr ''__proto__'' \<Longrightarrow> Headers_set h name v = Inr h' \<Longrightarrow>
     Headers_reachable h'"
| reach_addAll: "Headers_reachable h \<Longrightarrow> Headers_addAll h arg = Inr h' \<Longrightarrow> Headers_reachable h'"
| reach_remove: "Headers_reachable h \<Longrightarrow> representable name \<Longrightarrow>
     Headers_remove h name = Inr h' \<Longrightarrow> Headers_reachable h'"
| reach_clear: "Headers_reachable h \<Longrightarrow> Headers_reachable (Headers_clear h)"

text \<open>
  What a stored header value can be: \<^verbatim>\<open>undefined\<close>, a string that is not empty, or a
  String object.
\<close>

definition stored_ok :: "jsval \<Rightarrow> bool" where
  "stored_ok v =
     (case v of Undefined \<Rightarrow> True | Str s \<Rightarrow> s \<noteq> [] | StrObj s \<Rightarrow> True | _ \<Rightarrow> False)"

definition nonempty_string :: "jsval \<Rightarrow> bool" where
  "nonempty_string v = (case v of Str s \<Rightarrow> s \<noteq> [] | _ \<Rightarrow> False)"

section \<open>The authentication strategies\<close>

text \<open>
  The client is an external object; the strategies only read properties of it, so it is a
  value of the model. \<^verbatim>\<open>kmdAttribute\<close> is \<^verbatim>\<open>process.env.KINVEY_KMD_ATTRIBUTE || '_kmd'\<close>; the
  model takes the fallback. A strategy returns \<^verbatim>\<open>null\<close> (\<open>None\<close>) or an object with a
  \<^verbatim>\<open>scheme\<close> and either \<^verbatim>\<open>username\<close> and \<^verbatim>\<open>password\<close> or \<^verbatim>\<open>credentials\<close>; a property the object
  lacks reads as \<^verbatim>\<open>undefined\<close>.
\<close>

definition kmdAttribute :: string where
  "kmdAttribute = ''_kmd''"

record authInfo =
  scheme :: string
  username :: jsval
  password :: jsval
  credentials :: jsval

definition Auth_app :: "jsval \<Rightarrow> error + authInfo option" where
  "Auth_app client =
     (case get_prop client ''appKey'' of
        Inl e \<Rightarrow> Inl e
      | Inr k \<Rightarrow>
          if \<not> truthy k then Inl (Error ''Missing client credentials'')
          else (case get_prop client ''appSecret'' of
                  Inl e \<Rightarrow> Inl e
                | Inr s \<Rightarrow>
                    if \<not> truthy s then Inl (Error ''Missing client credentials'')
                    else Inr (Some \<lparr>scheme = ''Basic'', username = k, password = s,
                                    credentials = Undefined\<rparr>)))"

definition Auth_master :: "jsval \<Rightarrow> error + authInfo option" where
  "Auth_master client =
     (case get_prop client ''appKey'' of
        Inl e \<Rightarrow> Inl e
      | Inr k \<Rightarrow>
          if \<not> truthy k then Inl (Error ''Missing client credentials'')
          else (case get_prop client ''masterSecret'' of
                  Inl e \<Rightarrow> Inl e
                | Inr s \<Rightarrow>
                    if \<not> truthy s then Inl (Error ''Missing client credentials'')
                    else Inr (Some \<lparr>scheme = ''Basic'', username = k, password = s,
                                    credentials = Undefined\<rparr>)))"

definition Auth_none :: "jsval \<Rightarrow> error + authInfo option" where
  "Auth_none client = Inr None"

definition Auth_session :: "jsval \<Rightarrow> error + authInfo option" where
  "Auth_session client =
     (case get_prop client ''activeUser'' of
        Inl e \<Rightarrow> Inl e
      | Inr activeUser \<Rightarrow>
          if \<not> truthy activeUser
          then Inl (NoActiveUserError
                 ''There is not an active user. Please login a user and retry the request.'')
          else (case get_prop activeUser kmdAttribute of
                  Inl e \<Rightarrow> Inl e
                | Inr kmd \<Rightarrow>
                    (case get_prop kmd ''authtoken'' of
                       Inl e \<Rightarrow> Inl e
                     | Inr token \<Rightarrow>
                         Inr (Some \<lparr>scheme = ''Kinvey'', username = Undefined,
                                    password = Undefined, credentials = token\<rparr>))))"

definition Auth_basic :: "jsval \<Rightarrow> error + authInfo option" where
  "Auth_basic client =
     (case Auth_master client of Inr a \<Rightarrow> Inr a | Inl err \<Rightarrow> Auth_app client)"

definition Auth_all :: "jsval \<Rightarrow> error + authInfo option" where
  "Auth_all client =
     (case Auth_session client of Inr a \<Rightarrow> Inr a | Inl err \<Rightarrow> Auth_basic client)"

subsection \<open>Base64\<close>

text \<open>
  \<^verbatim>\<open>new Buffer(s).toString('base64')\<close>: the standard alphabet, padded, over the UTF-8
  bytes; three bytes give four sextets.
\<close>

definition b64_char :: "nat \<Rightarrow> char" where
  "b64_char n =
     ''ABCDEFGHIJKLMNOPQRSTUVWXYZabcdefghijklmnopqrstuvwxyz0123456789+/'' ! (n mod 64)"

fun base64 :: "string \<Rightarrow> string" where
  "base64 (a # b # c # bs) =
     (let x = (of_char a :: nat); y = (of_char b :: nat); z = (of_char c :: nat)
      in b64_char (x div 4) # b64_char ((x mod 4) * 16 + y div 16)
           # b64_char ((y mod 16) * 4 + z div 64) # b64_char (z mod 64) # base64 bs)"
| "base64 [a, b] =
     (let x = (of_char a :: nat); y = (of_char b :: nat)
      in [b64_char (x div 4), b64_char ((x mod 4) * 16 + y div 16),
          b64_char ((y mod 16) * 4), CHR ''=''])"
| "base64 [a] =
     (let x = (of_char a :: nat)
      in [b64_char (x div 4), b64_char ((x mod 4) * 16), CHR ''='', CHR ''=''])"
| "base64 [] = []"

subsection \<open>The authorization header\<close>

text \<open>
  The \<^verbatim>\<open>switch\<close> of \<^verbatim>\<open>authorizationHeader\<close> compares the auth type with \<^verbatim>\<open>===\<close>; every value
  that is none of the six labelled ones takes the \<^verbatim>\<open>default\<close> branch, \<^verbatim>\<open>'Default'\<close> and
  \<^verbatim>\<open>undefined\<close> among them.
\<close>

definition authInfo_for :: "jsval \<Rightarrow> jsval \<Rightarrow> error + authInfo option" where
  "authInfo_for authType client =
     (if authType = Str ''All'' then Auth_all client
      else if authType = Str ''App'' then Auth_app client
      else if authType = Str ''Basic'' then Auth_basic client
      else if authType = Str ''Master'' then Auth_master client
      else if authType = Str ''None'' then Auth_none client
      else if authType = Str ''Session'' then Auth_session client
      else (case Auth_session client of
              Inr a \<Rightarrow> Inr a
            | Inl err \<Rightarrow>
                (case Auth_master client of Inr a \<Rightarrow> Inr a | Inl error2 \<Rightarrow> Inl err)))"

text \<open>
  The second half of the getter: the object \<^verbatim>\<open>{name, value}\<close> is the pair. The template
  literals apply ToString to the user name, the password and the credentials.
\<close>

definition make_header :: "authInfo option \<Rightarrow> error + (string \<times> string) option" where
  "make_header authInfo =
     (case authInfo of
        None \<Rightarrow> Inr None
      | Some a \<Rightarrow>
          (case (if truthy (username a)
                 then (case ToString (username a) of
                         Inl e \<Rightarrow> Inl e
                       | Inr u \<Rightarrow>
                           (case ToString (password a) of
                              Inl e \<Rightarrow> Inl e
                            | Inr p \<Rightarrow> Inr (Str (base64 (u @ '':'' @ p)))))
                 else Inr (credentials a)) of
             Inl e \<Rightarrow> Inl e
           | Inr c \<Rightarrow>
               (case ToString c of
                  Inl e \<Rightarrow> Inl e
                | Inr cs \<Rightarrow> Inr (Some (''Authorization'', scheme a @ '' '' @ cs)))))"

definition authorizationHeader :: "jsval \<Rightarrow> jsval \<Rightarrow> error + (string \<times> string) option" where
  "authorizationHeader authType client =
     (case authInfo_for authType client of Inl e \<Rightarrow> Inl e | Inr a \<Rightarrow> make_header a)"

section \<open>The request configurations\<close>

text \<open>
  \<open>RequestConfig\<close> holds what its setters store; \<open>KinveyRequestConfig\<close> extends it. The
  URL is a string. The path segments that the URL setter of \<open>KinveyRequestConfig\<close>
  derives are left out, and so is that setter's parsing.
\<close>

record RequestConfig =
  configMethod :: string
  configHeaders :: Headers
  configUrl :: string
  configBody :: jsval
  configTimeout :: jsval
  configFollowRedirect :: bool
  configNoCache :: bool

text \<open>
  Modelled from the spec: the class of the query object is not under \<^verbatim>\<open>src/\<close>; the spec
  gives the query as ``an object exposing a query-string-serialization contract,
  nullable''. A query is held as the value its \<^verbatim>\<open>toQueryString()\<close> returns, and the null
  query as \<open>None\<close>.
\<close>

datatype Query = Query (toQueryString: jsval)

record KinveyRequestConfig = RequestConfig +
  authType :: jsval
  query :: "Query option"
  configOnline :: bool
  configCacheEnabled :: bool
  configApiVersion :: jsval
  configProperties :: jsval
  configAppVersion :: jsval
  client :: jsval

definition defaultTimeout :: jsval where
  "defaultTimeout = Num 30"

subsection \<open>Setters of RequestConfig\<close>

definition RequestConfig_set_method ::
  "'a RequestConfig_scheme \<Rightarrow> jsval \<Rightarrow> error + 'a RequestConfig_scheme" where
  "RequestConfig_set_method cfg m =
     (case name_string m of
        Inl e \<Rightarrow> Inl e
      | Inr s \<Rightarrow>
          if toUpperCase s \<in> set [''GET'', ''POST'', ''PATCH'', ''PUT'', ''DELETE'']
          then Inr (cfg\<lparr>configMethod := toUpperCase s\<rparr>)
          else Inl (Error
            ''Invalid request method. Only GET, POST, PATCH, PUT, and DELETE are allowed.''))"

text \<open>
  \<^verbatim>\<open>lodash/result(object, 'toJSON', object)\<close>: the property when the object has one, the object
  itself otherwise (no value of the model is a function, so nothing is called).
\<close>

definition result_toJSON :: "jsval \<Rightarrow> jsval" where
  "result_toJSON v =
     (case get_prop v ''toJSON'' of
        Inl e \<Rightarrow> v
      | Inr x \<Rightarrow> if x = Undefined then v else x)"

text \<open>The argument of the headers setter: an instance of \<open>Headers\<close>, or any other value.\<close>

datatype headers_arg = Instance Headers | Other jsval

definition RequestConfig_set_headers ::
  "'a RequestConfig_scheme \<Rightarrow> headers_arg \<Rightarrow> error + 'a RequestConfig_scheme" where
  "RequestConfig_set_headers cfg arg =
     (case arg of
        Instance h \<Rightarrow> Inr (cfg\<lparr>configHeaders := h\<rparr>)
      | Other v \<Rightarrow>
          (case Headers_new (result_toJSON v) of
             Inl e \<Rightarrow> Inl e
           | Inr h \<Rightarrow> Inr (cfg\<lparr>configHeaders := h\<rparr>)))"

definition RequestConfig_set_url :: "'a RequestConfig_scheme \<Rightarrow> string \<Rightarrow> 'a RequestConfig_scheme" where
  "RequestConfig_set_url cfg urlString = cfg\<lparr>configUrl := urlString\<rparr>"

definition RequestConfig_set_body :: "'a RequestConfig_scheme \<Rightarrow> jsval \<Rightarrow> 'a RequestConfig_scheme" where
  "RequestConfig_set_body cfg body = cfg\<lparr>configBody := body\<rparr>"

definition RequestConfig_set_data :: "'a RequestConfig_scheme \<Rightarrow> jsval \<Rightarrow> 'a RequestConfig_scheme" where
  "RequestConfig_set_data cfg d = RequestConfig_set_body cfg d"

definition RequestConfig_set_timeout :: "'a RequestConfig_scheme \<Rightarrow> jsval \<Rightarrow> 'a RequestConfig_scheme" where
  "RequestConfig_set_timeout cfg t =
     cfg\<lparr>configTimeout := (if isNumber t then t else defaultTimeout)\<rparr>"

definition RequestConfig_set_followRedirect ::
  "'a RequestConfig_scheme \<Rightarrow> jsval \<Rightarrow> 'a RequestConfig_scheme" where
  "RequestConfig_set_followRedirect cfg b = cfg\<lparr>configFollowRedirect := truthy b\<rparr>"

definition RequestConfig_set_noCache :: "'a RequestConfig_scheme \<Rightarrow> jsval \<Rightarrow> 'a RequestConfig_scheme" where
  "RequestConfig_set_noCache cfg b = cfg\<lparr>configNoCache := truthy b\<rparr>"

subsection \<open>Reading the URL\<close>

text \<open>
  The getters call two packages that are not part of the repository, \<^verbatim>\<open>append-query\<close> and
  \<^verbatim>\<open>qs\<close>; they are parameters of the model (\<open>appendQuery\<close>, \<open>stringify\<close>), and so is the
  token \<open>rnd\<close> that \<^verbatim>\<open>Math.random().toString(36).substr(2)\<close> gives. A read returns the
  value and the configuration it leaves behind.
\<close>

definition RequestConfig_url ::
  "(string \<Rightarrow> string \<Rightarrow> string) \<Rightarrow> (jsval \<Rightarrow> string) \<Rightarrow> string \<Rightarrow>
   'a RequestConfig_scheme \<Rightarrow> string \<times> 'a RequestConfig_scheme" where
  "RequestConfig_url appendQuery stringify rnd cfg =
     (if configNoCache cfg
      then (appendQuery (configUrl cfg) (stringify (Obj [(''_'', Str rnd)])), cfg)
      else (configUrl cfg, cfg))"

definition KinveyRequestConfig_url ::
  "(string \<Rightarrow> string \<Rightarrow> string) \<Rightarrow> (jsval \<Rightarrow> string) \<Rightarrow> string \<Rightarrow>
   'a KinveyRequestConfig_scheme \<Rightarrow> string \<times> 'a KinveyRequestConfig_scheme" where
  "KinveyRequestConfig_url appendQuery stringify rnd cfg =
     (case RequestConfig_url appendQuery stringify rnd cfg of
        (urlString, cfg1) \<Rightarrow>
          (let queryString = (case query cfg1 of None \<Rightarrow> Obj [] | Some q \<Rightarrow> toQueryString q)
           in if isEmpty queryString then (urlString, cfg1)
              else (appendQuery urlString (stringify queryString), cfg1)))"

subsection \<open>Reading the headers\<close>

text \<open>
  The getter \<^verbatim>\<open>headers\<close> of \<open>KinveyRequestConfig\<close>. \<^verbatim>\<open>super.headers\<close> is the stored instance,
  which the first statement updates in place. The last statement reads \<^verbatim>\<open>this.headers\<close>,
  which is this getter again, and calls \<^verbatim>\<open>set\<close> on what it returns; the body has no
  \<^verbatim>\<open>return\<close>, so a completed call returns \<^verbatim>\<open>undefined\<close> (\<open>Inr ()\<close>), and the method call on
  it is a TypeError. The first argument is the number of nested activations of the getter
  the call stack still has room for; with none left the engine throws a RangeError.

  \<^verbatim>\<open>byteCount\<close> is imported from \<^verbatim>\<open>../utils/string\<close>, which is not under \<^verbatim>\<open>src/\<close>: it is a
  parameter, applied to the result of \<^verbatim>\<open>JSON.stringify\<close> (\<open>None\<close> for \<^verbatim>\<open>undefined\<close>). The cap is
  \<^verbatim>\<open>process.env.KINVEY_MAX_HEADER_BYTES || 2000\<close>, a parameter as well.
\<close>

definition tooLarge_message :: "nat \<Rightarrow> nat \<Rightarrow> string" where
  "tooLarge_message n cap =
     ''The custom properties are '' @ digits n @ '' bytes.''
       @ ''It must be less then '' @ digits cap @ '' bytes.''"

fun KinveyRequestConfig_headers ::
  "nat \<Rightarrow> (string option \<Rightarrow> nat) \<Rightarrow> nat \<Rightarrow> 'a KinveyRequestConfig_scheme \<Rightarrow>
   (error + unit) \<times> 'a KinveyRequestConfig_scheme" where
  "KinveyRequestConfig_headers 0 byteCount cap cfg = (Inl RangeError, cfg)"
| "KinveyRequestConfig_headers (Suc depth) byteCount cap cfg =
     (case (if truthy (configAppVersion cfg)
            then Headers_set (configHeaders cfg) (Str ''X-Kinvey-Client-App-Version'')
                   (configAppVersion cfg)
            else Headers_remove (configHeaders cfg) (Str ''X-Kinvey-Client-App-Version'')) of
        Inl e \<Rightarrow> (Inl e, cfg)
      | Inr hs \<Rightarrow>
          (let cfg1 = cfg\<lparr>configHeaders := hs\<rparr>;
               customPropertiesHeader = JSON_stringify (configProperties cfg1);
               customPropertiesByteCount = byteCount customPropertiesHeader
           in if customPropertiesByteCount \<ge> cap
              then (Inl (Error (tooLarge_message customPropertiesByteCount cap)), cfg1)
              else (case KinveyRequestConfig_headers depth byteCount cap cfg1 of
                      (Inl e, cfg2) \<Rightarrow> (Inl e, cfg2)
                    | (Inr u, cfg2) \<Rightarrow> (Inl TypeError, cfg2))))"

subsection \<open>Setting the app version\<close>

text \<open>
  The setter treats its argument as the list of positional segments; the model takes an
  array. An index past the end reads as \<^verbatim>\<open>undefined\<close>.
\<close>

definition at_index :: "jsval list \<Rightarrow> nat \<Rightarrow> jsval" where
  "at_index xs i = (if i < length xs then xs ! i else Undefined)"

definition KinveyRequestConfig_set_appVersion ::
  "'a KinveyRequestConfig_scheme \<Rightarrow> jsval list \<Rightarrow> error + 'a KinveyRequestConfig_scheme" where
  "KinveyRequestConfig_set_appVersion cfg args =
     (let version = drop 1 args;
          major = at_index args 0;
          minor = at_index version 1;
          patch = at_index version 2
      in case (if truthy major
               then (case ToString major of Inl e \<Rightarrow> Inl e | Inr s \<Rightarrow> Inr (trim s))
               else Inr []) of
           Inl e \<Rightarrow> Inl e
         | Inr v1 \<Rightarrow>
             (case (if truthy minor
                    then (case ToString minor of
                            Inl e \<Rightarrow> Inl e
                          | Inr s \<Rightarrow> Inr (trim (''.'' @ s)))
                    else Inr v1) of
                Inl e \<Rightarrow> Inl e
              | Inr v2 \<Rightarrow>
                  (case (if truthy patch
                         then (case ToString patch of
                                 Inl e \<Rightarrow> Inl e
                               | Inr s \<Rightarrow> Inr (trim (''.'' @ s)))
                         else Inr v2) of
                     Inl e \<Rightarrow> Inl e
                   | Inr v3 \<Rightarrow> Inr (cfg\<lparr>configAppVersion := Str v3\<rparr>))))"

section \<open>The requests\<close>

text \<open>
  A \<open>Request\<close> owns a configuration and the flag \<^verbatim>\<open>executing\<close>. \<^verbatim>\<open>execute\<close> is declared
  \<^verbatim>\<open>async\<close>: its \<^verbatim>\<open>throw\<close> reaches the caller as a rejected promise; the model returns
  the error either way.
\<close>

record 'c Request =
  requestConfig :: 'c
  executing :: bool

definition isExecuting :: "('c, 'z) Request_scheme \<Rightarrow> bool" where
  "isExecuting r = executing r"

definition Request_execute :: "('c, 'z) Request_scheme \<Rightarrow> error + ('c, 'z) Request_scheme" where
  "Request_execute r =
     (if isExecuting r
      then Inl (Error ''Unable to execute the request. The request is already executing.'')
      else Inr (r\<lparr>executing := True\<rparr>))"

text \<open>
  The calls on a \<open>Request\<close> that assign something: the setters, which hand their argument
  to the configuration, and \<^verbatim>\<open>execute\<close>. The getters, \<^verbatim>\<open>isExecuting\<close> and \<^verbatim>\<open>toJSON\<close> assign
  nothing. The configuration given to the \<^verbatim>\<open>config\<close> setter is an instance of
  \<open>RequestConfig\<close>.
\<close>

datatype Request_call =
    Set_config RequestConfig
  | Set_method jsval
  | Set_headers headers_arg
  | Set_url string
  | Set_body jsval
  | Set_data jsval
  | Execute

fun Request_do :: "Request_call \<Rightarrow> RequestConfig Request \<Rightarrow> error + RequestConfig Request" where
  "Request_do (Set_config c) r = Inr (r\<lparr>requestConfig := c\<rparr>)"
| "Request_do (Set_method m) r =
     (case RequestConfig_set_method (requestConfig r) m of
        Inl e \<Rightarrow> Inl e
      | Inr c \<Rightarrow> Inr (r\<lparr>requestConfig := c\<rparr>))"
| "Request_do (Set_headers a) r =
     (case RequestConfig_set_headers (requestConfig r) a of
        Inl e \<Rightarrow> Inl e
      | Inr c \<Rightarrow> Inr (r\<lparr>requestConfig := c\<rparr>))"
| "Request_do (Set_url u) r = Inr (r\<lparr>requestConfig := RequestConfig_set_url (requestConfig r) u\<rparr>)"
| "Request_do (Set_body b) r = Inr (r\<lparr>requestConfig := RequestConfig_set_body (requestConfig r) b\<rparr>)"
| "Request_do (Set_data d) r = Inr (r\<lparr>requestConfig := RequestConfig_set_data (requestConfig r) d\<rparr>)"
| "Request_do Execute r = Request_execute r"

fun Request_run :: "Request_call list \<Rightarrow> RequestConfig Request \<Rightarrow> error + RequestConfig Request" where
  "Request_run [] r = Inr r"
| "Request_run (c # cs) r =
     (case Request_do c r of Inl e \<Rightarrow> Inl e | Inr r' \<Rightarrow> Request_run cs r')"

subsection \<open>KinveyRequest\<close>

text \<open>
  The getter \<^verbatim>\<open>authorizationHeader\<close> reads \<^verbatim>\<open>this.authType\<close> and \<^verbatim>\<open>this.client\<close>, and
  \<^verbatim>\<open>execute\<close> calls \<^verbatim>\<open>this.addHeader\<close>, on the request itself. Neither \<open>KinveyRequest\<close> nor
  \<open>Request\<close> declares such a member, and the constructor assigns none: each reads as
  \<^verbatim>\<open>undefined\<close> unless a caller has put a property of that name on the instance. The field
  \<open>props\<close> holds the properties put there from outside; the constructor leaves it empty.
  No value of the model is callable, so \<^verbatim>\<open>this.addHeader(...)\<close> is a TypeError. The rack
  the constructor creates is not read by any method modelled here and is left out.
\<close>

record 'c KinveyRequest = "'c Request" +
  props :: "(string \<times> jsval) list"

definition KinveyRequest_new :: "'c \<Rightarrow> 'c KinveyRequest" where
  "KinveyRequest_new config = \<lparr>requestConfig = config, executing = False, props = []\<rparr>"

definition instance_prop :: "('c, 'z) KinveyRequest_scheme \<Rightarrow> string \<Rightarrow> jsval" where
  "instance_prop r k = (case map_of (props r) k of None \<Rightarrow> Undefined | Some v \<Rightarrow> v)"

definition KinveyRequest_authorizationHeader ::
  "('c, 'z) KinveyRequest_scheme \<Rightarrow> error + (string \<times> string) option" where
  "KinveyRequest_authorizationHeader r =
     authorizationHeader (instance_prop r ''authType'') (instance_prop r ''client'')"

definition KinveyRequest_addHeader ::
  "('c, 'z) KinveyRequest_scheme \<Rightarrow> string \<times> string \<Rightarrow> error + ('c, 'z) KinveyRequest_scheme" where
  "KinveyRequest_addHeader r header = Inl TypeError"

definition KinveyRequest_execute ::
  "('c, 'z) KinveyRequest_scheme \<Rightarrow> error + ('c, 'z) KinveyRequest_scheme" where
  "KinveyRequest_execute r =
     (case KinveyRequest_authorizationHeader r of
        Inl e \<Rightarrow> Inl e
      | Inr None \<Rightarrow> Request_execute r
      | Inr (Some header) \<Rightarrow>
          (case KinveyRequest_addHeader r header of
             Inl e \<Rightarrow> Inl e
           | Inr r' \<Rightarrow> Request_execute r'))"

section \<open>Facts about the header map\<close>

lemma digits_nonempty: "digits n \<noteq> []"
  by (subst digits.simps) simp

lemma JSON_stringify_nonempty: "JSON_stringify v = Some s \<Longrightarrow> s \<noteq> []"
  by (cases v) (auto simp: show_int_def digits_nonempty json_quote_def split: if_splits)

lemma header_text_ok: "truthy v \<Longrightarrow> stored_ok (header_text v)"
proof (cases "isString v")
  case True
  assume "truthy v"
  with True show ?thesis by (cases v) (auto simp: header_text_def stored_ok_def)
next
  case False
  show ?thesis
  proof (cases "JSON_stringify v")
    case None
    with False show ?thesis by (simp add: header_text_def stored_ok_def)
  next
    case (Some s)
    with False JSON_stringify_nonempty[OF Some] show ?thesis
      by (simp add: header_text_def stored_ok_def)
  qed
qed

lemma update_entry_ok:
  "list_all (\<lambda>kv. stored_ok (snd kv)) al \<Longrightarrow> stored_ok v \<Longrightarrow>
   list_all (\<lambda>kv. stored_ok (snd kv)) (AList.update k v al)"
  by (induction al) auto

lemma delete_entry_ok:
  "list_all (\<lambda>kv. stored_ok (snd kv)) al \<Longrightarrow>
   list_all (\<lambda>kv. stored_ok (snd kv)) (AList.delete k al)"
  by (induction al) auto

lemma get_loop_lower:
  "lower n1 = lower n2 \<Longrightarrow> get_loop lower hs n1 ks = get_loop lower hs n2 ks"
  by (induction ks) auto

lemma get_loop_stored:
  "get_loop lower hs n ks = Undefined \<or> get_loop lower hs n ks \<in> snd ` set hs"
proof (induction ks)
  case Nil
  show ?case by simp
next
  case (Cons k ks)
  show ?case
  proof (cases "lower k = lower n")
    case False
    with Cons show ?thesis by simp
  next
    case True
    show ?thesis
    proof (cases "map_of hs k")
      case None
      with True show ?thesis by simp
    next
      case (Some v)
      from map_of_SomeD[OF Some] have "v \<in> snd ` set hs" by force
      with True Some show ?thesis by simp
    qed
  qed
qed

lemma addAll_forEach_Inr: "addAll_forEach h kvs ns = Inr h' \<Longrightarrow> ns = [] \<and> h' = h"
  by (cases ns) (auto simp: Headers_setHeader_def)

lemma Headers_addAll_Inr: "Headers_addAll h arg = Inr h' \<Longrightarrow> h' = h \<and> arg = Obj []"
  by (cases arg)
    (auto simp: Headers_addAll_def own_properties_def split: if_splits dest!: addAll_forEach_Inr)

lemma Headers_new_Inr: "Headers_new arg = Inr h \<Longrightarrow> h = \<lparr>headers = None\<rparr>"
  by (auto simp: Headers_new_def dest!: Headers_addAll_Inr)

lemma Headers_set_Inr:
  "Headers_set h name v = Inr h' \<Longrightarrow>
   truthy name \<and> truthy v \<and>
   (\<exists>n. name_string name = Inr n \<and>
        entries h' = (if n = ''__proto__'' then entries h
                      else AList.update n (header_text v) (entries h)))"
  unfolding Headers_set_def
  by (cases "name_string name") (auto simp: entries_def split: if_splits)

lemma Headers_remove_Inr:
  "Headers_remove h name = Inr h' \<Longrightarrow>
   entries h' = entries h \<or> (\<exists>n. entries h' = AList.delete n (entries h))"
  unfolding Headers_remove_def
  by (cases "name_string name") (auto simp: entries_def split: if_splits)

lemma reachable_stored_ok:
  "Headers_reachable h \<Longrightarrow> list_all (\<lambda>kv. stored_ok (snd kv)) (entries h)"
proof (induction rule: Headers_reachable.induct)
  case (reach_new arg h)
  then show ?case by (auto simp: entries_def dest!: Headers_new_Inr)
next
  case (reach_set h name v h')
  then have s: "Headers_set h name v = Inr h'"
    and ih: "list_all (\<lambda>kv. stored_ok (snd kv)) (entries h)" by simp_all
  from Headers_set_Inr[OF s] ih show ?case
    by (auto simp: header_text_ok update_entry_ok)
next
  case (reach_addAll h arg h')
  then show ?case by (auto dest!: Headers_addAll_Inr)
next
  case (reach_remove h name h')
  then have r: "Headers_remove h name = Inr h'"
    and ih: "list_all (\<lambda>kv. stored_ok (snd kv)) (entries h)" by simp_all
  from Headers_remove_Inr[OF r] ih show ?case
    by (auto simp: delete_entry_ok)
next
  case (reach_clear h)
  show ?case by (simp add: Headers_clear_def entries_def)
qed

lemma stored_ok_truthy: "stored_ok v \<Longrightarrow> truthy v = (v \<noteq> Undefined)"
  by (cases v) (auto simp: stored_ok_def)

lemma has_iff_get:
  assumes "list_all (\<lambda>kv. stored_ok (snd kv)) (entries h)"
  shows "(case Headers_get lower h n of
            Inl e \<Rightarrow> Headers_has lower h n = Inl e
          | Inr v \<Rightarrow> Headers_has lower h n = Inr (v \<noteq> Undefined))"
proof (cases "Headers_get lower h n")
  case (Inl e)
  then show ?thesis by (simp add: Headers_has_def)
next
  case (Inr v)
  have "stored_ok v"
  proof (cases "truthy n")
    case False
    with Inr show ?thesis by (auto simp: Headers_get_def stored_ok_def)
  next
    case True
    with Inr obtain s where v: "v = get_loop lower (entries h) s (map fst (entries h))"
      by (auto simp: Headers_get_def split: sum.splits)
    from get_loop_stored[of lower "entries h" s "map fst (entries h)"] assms v
    show ?thesis by (auto simp: list_all_iff stored_ok_def)
  qed
  with Inr show ?thesis by (simp add: Headers_has_def stored_ok_truthy)
qed

lemma name_string_Str: "name_string (Str s) = Inr s"
  by (simp add: name_string_def)

lemma Headers_get_Str:
  "s \<noteq> [] \<Longrightarrow>
   Headers_get lower h (Str s) = Inr (get_loop lower (entries h) s (map fst (entries h)))"
  by (simp add: Headers_get_def name_string_Str)

lemma Headers_get_lower:
  "lower n1 = lower n2 \<Longrightarrow> n1 \<noteq> [] \<Longrightarrow> n2 \<noteq> [] \<Longrightarrow>
   Headers_get lower h (Str n1) = Headers_get lower h (Str n2)"
  using get_loop_lower[of lower n1 n2 "entries h" "map fst (entries h)"]
  by (simp add: Headers_get_Str)

lemma Headers_set_Str:
  "n \<noteq> [] \<Longrightarrow> truthy v \<Longrightarrow> n \<noteq> ''__proto__'' \<Longrightarrow>
   Headers_set h (Str n) v = Inr (h\<lparr>headers := Some (AList.update n (header_text v) (entries h))\<rparr>)"
  by (simp add: Headers_set_def name_string_Str)

lemma entries_update: "entries (h\<lparr>headers := Some kvs\<rparr>) = kvs"
  by (simp add: entries_def)

section \<open>Facts about the requests\<close>

lemma Request_do_executing: "executing r \<Longrightarrow> Request_do c r = Inr r' \<Longrightarrow> executing r'"
  by (cases c) (auto simp: Request_execute_def isExecuting_def split: sum.splits)

lemma Request_run_executing: "executing r \<Longrightarrow> Request_run cs r = Inr r' \<Longrightarrow> executing r'"
proof (induction cs arbitrary: r)
  case Nil
  then show ?case by simp
next
  case (Cons c cs)
  then show ?case by (auto split: sum.splits dest: Request_do_executing)
qed

lemma app_version_step:
  "\<exists>hs. (if truthy (configAppVersion cfg)
          then Headers_set (configHeaders cfg) (Str ''X-Kinvey-Client-App-Version'')
                 (configAppVersion cfg)
          else Headers_remove (configHeaders cfg) (Str ''X-Kinvey-Client-App-Version'')) = Inr hs"
  by (simp add: Headers_set_def Headers_remove_def name_string_def)

lemma ToString_small:
  "ToString (Num 1) = Inr ''1''" "ToString (Num 2) = Inr ''2''" "ToString (Num 3) = Inr ''3''"
  by code_simp+

lemma trim_small: "trim ''1'' = ''1''" "trim ''.2'' = ''.2''" "trim ''.3'' = ''.3''"
  by code_simp+

lemma app_header:
  "authorizationHeader (Str ''App'') (Obj [(''appKey'', Str ''kid''), (''appSecret'', Str ''secret'')]) =
     Inr (Some (''Authorization'', ''Basic a2lkOnNlY3JldA==''))"
  by code_simp

lemma undefined_header: "authorizationHeader Undefined Undefined = Inl TypeError"
  by code_simp

section \<open>ApiRequest.execute (KinveyRequest.execute)\<close>

text \<open>
  Claim C1 says that \<^verbatim>\<open>execute()\<close> resolves the authorization header from the configured
  auth type and the client of the configuration, merges it into the headers of the
  configuration and then delegates to the base \<^verbatim>\<open>execute()\<close>. The code does not: a request
  made by the constructor has no \<^verbatim>\<open>authType\<close> and no \<^verbatim>\<open>client\<close> of its own, so the getter takes
  its \<^verbatim>\<open>default\<close> branch and reads a property of \<^verbatim>\<open>undefined\<close>; \<^verbatim>\<open>execute()\<close> throws a TypeError
  whatever the configuration holds. Where a caller has put both properties on the request
  and a header is produced, \<^verbatim>\<open>this.addHeader\<close> is not a function, and \<^verbatim>\<open>execute()\<close> throws a
  TypeError again; the headers are not touched and the base \<^verbatim>\<open>execute()\<close> is not reached.
\<close>

theorem KinveyRequest_execute_fails:
  "KinveyRequest_execute (KinveyRequest_new cfg) = Inl TypeError \<and>
   KinveyRequest_authorizationHeader
     ((KinveyRequest_new cfg)\<lparr>props := [(''authType'', Str ''App''),
        (''client'', Obj [(''appKey'', Str ''kid''), (''appSecret'', Str ''secret'')])]\<rparr>) =
     Inr (Some (''Authorization'', ''Basic a2lkOnNlY3JldA=='')) \<and>
   KinveyRequest_execute
     ((KinveyRequest_new cfg)\<lparr>props := [(''authType'', Str ''App''),
        (''client'', Obj [(''appKey'', Str ''kid''), (''appSecret'', Str ''secret'')])]\<rparr>) =
     Inl TypeError"
  by (simp add: KinveyRequest_execute_def KinveyRequest_authorizationHeader_def
        KinveyRequest_new_def instance_prop_def KinveyRequest_addHeader_def
        app_header undefined_header)

section \<open>The default authentication cascade\<close>

text \<open>
  Claim C2. When the auth type is none of the six labelled ones, the getter tries the
  session strategy and then the master strategy. If the session strategy fails and the
  master strategy fails too, the error thrown is the one of the session strategy; if the
  master strategy succeeds, its result is used, and with string credentials the header is
  \<^verbatim>\<open>Basic\<close> with the base64 form of \<^verbatim>\<open>appKey:masterSecret\<close>.
\<close>

theorem default_auth_cascade:
  "ty \<notin> set [Str ''All'', Str ''App'', Str ''Basic'', Str ''Master'', Str ''None'', Str ''Session''] \<Longrightarrow>
   Auth_session cl = Inl err \<Longrightarrow>
   (Auth_master cl = Inl err2 \<longrightarrow> authorizationHeader ty cl = Inl err) \<and>
   (Auth_master cl = Inr a \<longrightarrow>
      authInfo_for ty cl = Inr a \<and>
      authorizationHeader ty cl = make_header a) \<and>
   (get_prop cl ''appKey'' = Inr (Str k) \<longrightarrow> k \<noteq> [] \<longrightarrow>
    get_prop cl ''masterSecret'' = Inr (Str m) \<longrightarrow> m \<noteq> [] \<longrightarrow>
      authorizationHeader ty cl =
        Inr (Some (''Authorization'', ''Basic '' @ base64 (k @ '':'' @ m))))"
proof -
  assume t: "ty \<notin> set [Str ''All'', Str ''App'', Str ''Basic'', Str ''Master'', Str ''None'', Str ''Session'']"
    and s: "Auth_session cl = Inl err"
  from t s have d: "authInfo_for ty cl =
      (case Auth_master cl of Inr a \<Rightarrow> Inr a | Inl error2 \<Rightarrow> Inl err)"
    by (simp add: authInfo_for_def)
  have m: "get_prop cl ''appKey'' = Inr (Str k) \<longrightarrow> k \<noteq> [] \<longrightarrow>
    get_prop cl ''masterSecret'' = Inr (Str m) \<longrightarrow> m \<noteq> [] \<longrightarrow>
    Auth_master cl = Inr (Some \<lparr>scheme = ''Basic'', username = Str k, password = Str m,
                                    credentials = Undefined\<rparr>)"
    by (simp add: Auth_master_def)
  show ?thesis
    using d m by (auto simp: authorizationHeader_def make_header_def)
qed

text \<open>
  The theorem at a client with no credentials at all, and at one with an app key and a
  master secret but no active user.
\<close>

theorem default_auth_cascade_witness:
  "Auth_session (Obj []) =
     Inl (NoActiveUserError ''There is not an active user. Please login a user and retry the request.'') \<and>
   Auth_master (Obj []) = Inl (Error ''Missing client credentials'') \<and>
   authorizationHeader (Str ''Default'') (Obj []) =
     Inl (NoActiveUserError ''There is not an active user. Please login a user and retry the request.'') \<and>
   Auth_session (Obj [(''appKey'', Str ''kid''), (''masterSecret'', Str ''secret'')]) =
     Inl (NoActiveUserError ''There is not an active user. Please login a user and retry the request.'') \<and>
   authorizationHeader Undefined (Obj [(''appKey'', Str ''kid''), (''masterSecret'', Str ''secret'')]) =
     Inr (Some (''Authorization'', ''Basic a2lkOnNlY3JldA==''))"
proof -
  let ?e = "NoActiveUserError ''There is not an active user. Please login a user and retry the request.''"
  let ?c = "Obj [(''appKey'', Str ''kid''), (''masterSecret'', Str ''secret'')]"
  have t1: "Str ''Default'' \<notin> set [Str ''All'', Str ''App'', Str ''Basic'', Str ''Master'', Str ''None'', Str ''Session'']"
    by simp
  have t2: "Undefined \<notin> set [Str ''All'', Str ''App'', Str ''Basic'', Str ''Master'', Str ''None'', Str ''Session'']"
    by simp
  have s1: "Auth_session (Obj []) = Inl ?e" by code_simp
  have m1: "Auth_master (Obj []) = Inl (Error ''Missing client credentials'')" by code_simp
  have s2: "Auth_session ?c = Inl ?e" by code_simp
  have k: "get_prop ?c ''appKey'' = Inr (Str ''kid'')" by code_simp
  have ms: "get_prop ?c ''masterSecret'' = Inr (Str ''secret'')" by code_simp
  have b: "''Basic '' @ base64 (''kid'' @ '':'' @ ''secret'') = ''Basic a2lkOnNlY3JldA==''" by code_simp
  have ne: "''kid'' \<noteq> []" "''secret'' \<noteq> []" by simp_all
  have r1: "authorizationHeader (Str ''Default'') (Obj []) = Inl ?e"
    by (rule default_auth_cascade[OF t1 s1, THEN conjunct1, THEN mp, OF m1])
  have "authorizationHeader Undefined ?c =
          Inr (Some (''Authorization'', ''Basic '' @ base64 (''kid'' @ '':'' @ ''secret'')))"
    by (rule default_auth_cascade[OF t2 s2, THEN conjunct2, THEN conjunct2,
          THEN mp, THEN mp, THEN mp, THEN mp, OF k ne(1) ms ne(2)])
  then have r2: "authorizationHeader Undefined ?c = Inr (Some (''Authorization'', ''Basic a2lkOnNlY3JldA==''))"
    by (simp only: b)
  show ?thesis by (intro conjI s1 m1 r1 s2 r2)
qed

section \<open>Header names and case\<close>

text \<open>
  Claim C3 says that \<^verbatim>\<open>get\<close>, \<^verbatim>\<open>set\<close>, \<^verbatim>\<open>has\<close> and \<^verbatim>\<open>remove\<close> all ignore the case of a name,
  that the map holds one entry per name up to case, and that \<^verbatim>\<open>set(n1, v)\<close> followed by
  \<^verbatim>\<open>get(n2)\<close> returns \<open>v\<close> when the names differ only in case. \<^verbatim>\<open>get\<close> and \<^verbatim>\<open>has\<close> do compare
  names under the case mapping (last part of the statement). \<^verbatim>\<open>set\<close> and \<^verbatim>\<open>remove\<close> do not:
  they assign and delete the property of the name exactly as given. So, whatever the case
  mapping, when a value is stored under \<open>k\<close> and \<open>n\<close> differs from \<open>k\<close> only in case,
  \<^verbatim>\<open>set(n, v)\<close> adds a second entry, \<^verbatim>\<open>get(n)\<close> after it still returns the value stored under
  \<open>k\<close>, and \<^verbatim>\<open>remove(n)\<close> removes nothing and leaves \<^verbatim>\<open>has(n)\<close> true.
\<close>

theorem Headers_set_remove_keep_case:
  "lower k = lower n \<Longrightarrow> k \<noteq> n \<Longrightarrow> k \<noteq> [] \<Longrightarrow> k \<noteq> ''__proto__'' \<Longrightarrow>
   n \<noteq> [] \<Longrightarrow> n \<noteq> ''__proto__'' \<Longrightarrow> old \<noteq> [] \<Longrightarrow> fresh \<noteq> [] \<Longrightarrow>
   Headers_set \<lparr>headers = None\<rparr> (Str k) (Str old) = Inr \<lparr>headers = Some [(k, Str old)]\<rparr> \<and>
   Headers_set \<lparr>headers = Some [(k, Str old)]\<rparr> (Str n) (Str fresh) =
     Inr \<lparr>headers = Some [(k, Str old), (n, Str fresh)]\<rparr> \<and>
   Headers_get lower \<lparr>headers = Some [(k, Str old), (n, Str fresh)]\<rparr> (Str n) = Inr (Str old) \<and>
   Headers_remove \<lparr>headers = Some [(k, Str old)]\<rparr> (Str n) = Inr \<lparr>headers = Some [(k, Str old)]\<rparr> \<and>
   Headers_has lower \<lparr>headers = Some [(k, Str old)]\<rparr> (Str n) = Inr True \<and>
   (lower n1 = lower n2 \<longrightarrow> n1 \<noteq> [] \<longrightarrow> n2 \<noteq> [] \<longrightarrow>
      Headers_get lower h (Str n1) = Headers_get lower h (Str n2) \<and>
      Headers_has lower h (Str n1) = Headers_has lower h (Str n2))"
proof -
  assume l: "lower k = lower n" and kn: "k \<noteq> n" and k: "k \<noteq> []" "k \<noteq> ''__proto__''"
    and n: "n \<noteq> []" "n \<noteq> ''__proto__''" and o: "old \<noteq> []" and f: "fresh \<noteq> []"
  have s1: "Headers_set \<lparr>headers = None\<rparr> (Str k) (Str old) = Inr \<lparr>headers = Some [(k, Str old)]\<rparr>"
    using k o by (simp add: Headers_set_Str header_text_def entries_def)
  have s2: "Headers_set \<lparr>headers = Some [(k, Str old)]\<rparr> (Str n) (Str fresh) =
     Inr \<lparr>headers = Some [(k, Str old), (n, Str fresh)]\<rparr>"
    using n f kn by (simp add: Headers_set_Str header_text_def entries_def)
  have g: "Headers_get lower \<lparr>headers = Some [(k, Str old), (n, Str fresh)]\<rparr> (Str n) = Inr (Str old)"
    using n l by (simp add: Headers_get_Str entries_def)
  have r: "Headers_remove \<lparr>headers = Some [(k, Str old)]\<rparr> (Str n) = Inr \<lparr>headers = Some [(k, Str old)]\<rparr>"
    using n kn by (simp add: Headers_remove_def name_string_Str entries_def)
  have hs: "Headers_has lower \<lparr>headers = Some [(k, Str old)]\<rparr> (Str n) = Inr True"
    using n l o by (simp add: Headers_has_def Headers_get_Str entries_def)
  have c: "lower n1 = lower n2 \<longrightarrow> n1 \<noteq> [] \<longrightarrow> n2 \<noteq> [] \<longrightarrow>
      Headers_get lower h (Str n1) = Headers_get lower h (Str n2) \<and>
      Headers_has lower h (Str n1) = Headers_has lower h (Str n2)"
  proof (intro impI)
    assume a: "lower n1 = lower n2" "n1 \<noteq> []" "n2 \<noteq> []"
    have e: "Headers_get lower h (Str n1) = Headers_get lower h (Str n2)"
      by (rule Headers_get_lower[OF a])
    show "Headers_get lower h (Str n1) = Headers_get lower h (Str n2) \<and>
      Headers_has lower h (Str n1) = Headers_has lower h (Str n2)"
      by (simp add: Headers_has_def e)
  qed
  show ?thesis by (intro conjI s1 s2 g r hs c)
qed

text \<open>
  The theorem with \<^verbatim>\<open>Accept\<close> stored and the name \<^verbatim>\<open>accept\<close>, and for reading under the names
  \<^verbatim>\<open>accept\<close> and \<^verbatim>\<open>ACCEPT\<close>; the case mapping is the one on ASCII letters.
\<close>

theorem Headers_set_remove_keep_case_witness:
  "lower_ascii ''Accept'' = lower_ascii ''accept'' \<and>
   Headers_set \<lparr>headers = None\<rparr> (Str ''Accept'') (Str ''text/html'') = Inr \<lparr>headers = Some [(''Accept'', Str ''text/html'')]\<rparr> \<and>
   Headers_set \<lparr>headers = Some [(''Accept'', Str ''text/html'')]\<rparr> (Str ''accept'') (Str ''application/json'') = Inr \<lparr>headers = Some [(''Accept'', Str ''text/html''), (''accept'', Str ''application/json'')]\<rparr> \<and>
   Headers_get lower_ascii \<lparr>headers = Some [(''Accept'', Str ''text/html''), (''accept'', Str ''application/json'')]\<rparr> (Str ''accept'') = Inr (Str ''text/html'') \<and>
   Headers_remove \<lparr>headers = Some [(''Accept'', Str ''text/html'')]\<rparr> (Str ''accept'') = Inr \<lparr>headers = Some [(''Accept'', Str ''text/html'')]\<rparr> \<and>
   Headers_has lower_ascii \<lparr>headers = Some [(''Accept'', Str ''text/html'')]\<rparr> (Str ''accept'') = Inr True \<and>
   lower_ascii ''accept'' = lower_ascii ''ACCEPT'' \<and>
   Headers_get lower_ascii \<lparr>headers = Some [(''Accept'', Str ''text/html''), (''accept'', Str ''application/json'')]\<rparr> (Str ''accept'') = Headers_get lower_ascii \<lparr>headers = Some [(''Accept'', Str ''text/html''), (''accept'', Str ''application/json'')]\<rparr> (Str ''ACCEPT'') \<and>
   Headers_has lower_ascii \<lparr>headers = Some [(''Accept'', Str ''text/html''), (''accept'', Str ''application/json'')]\<rparr> (Str ''accept'') = Headers_has lower_ascii \<lparr>headers = Some [(''Accept'', Str ''text/html''), (''accept'', Str ''application/json'')]\<rparr> (Str ''ACCEPT'')"
proof -
  have l: "lower_ascii ''Accept'' = lower_ascii ''accept''" by code_simp
  have l2: "lower_ascii ''accept'' = lower_ascii ''ACCEPT''" by code_simp
  have d: "''Accept'' \<noteq> ''accept''" by simp
  have k: "''Accept'' \<noteq> []" "''Accept'' \<noteq> ''__proto__''" by simp_all
  have n: "''accept'' \<noteq> []" "''accept'' \<noteq> ''__proto__''" by simp_all
  have o: "''text/html'' \<noteq> []" and f: "''application/json'' \<noteq> []" by simp_all
  have m: "''ACCEPT'' \<noteq> []" by simp
  note t = Headers_set_remove_keep_case[where lower=lower_ascii and ?n1.0="''accept''"
      and ?n2.0="''ACCEPT''" and h="\<lparr>headers = Some [(''Accept'', Str ''text/html''), (''accept'', Str ''application/json'')]\<rparr>", OF l d k n o f]
  note c = t[THEN conjunct2, THEN conjunct2, THEN conjunct2, THEN conjunct2, THEN conjunct2,
      THEN mp, THEN mp, THEN mp, OF l2 n(1) m]
  show ?thesis
    by (intro conjI l l2 t[THEN conjunct1] t[THEN conjunct2, THEN conjunct1]
          t[THEN conjunct2, THEN conjunct2, THEN conjunct1]
          t[THEN conjunct2, THEN conjunct2, THEN conjunct2, THEN conjunct1]
          t[THEN conjunct2, THEN conjunct2, THEN conjunct2, THEN conjunct2, THEN conjunct1]
          c[THEN conjunct1] c[THEN conjunct2])
qed

section \<open>Headers.addAll\<close>

text \<open>
  Claim C4 says that \<^verbatim>\<open>addAll\<close> fails on an argument that is not a plain object and
  otherwise applies \<^verbatim>\<open>set\<close> to every entry. The first half holds. For the second the code
  calls \<^verbatim>\<open>this.setHeader\<close>, which the class does not define: \<^verbatim>\<open>addAll\<close> of a plain object
  with at least one key throws a TypeError and stores nothing, and so does the
  constructor; only the empty object is accepted.
\<close>

theorem Headers_addAll_entries_fail:
  "Headers_addAll h (Obj ((k, v) # kvs)) = Inl TypeError \<and>
   Headers_addAll h (Obj []) = Inr h \<and>
   Headers_addAll h (Arr xs) = Inl (Error ''Headers argument must be an object.'') \<and>
   Headers_addAll h Null = Inl (Error ''Headers argument must be an object.'') \<and>
   Headers_addAll h (Str s) = Inl (Error ''Headers argument must be an object.'') \<and>
   Headers_new (Obj [(''accept'', Str ''text/html'')]) = Inl TypeError"
  by (simp add: Headers_addAll_def Headers_new_def Headers_setHeader_def own_properties_def)

section \<open>Reading the headers of a KinveyRequestConfig\<close>

text \<open>
  Claim C5 says that a read of \<^verbatim>\<open>headers\<close> returns a header map with the derived headers
  recomputed. In the code no read returns: whatever the configuration, the cap, the byte
  count and the room on the call stack, the getter ends in an exception.
\<close>

theorem headers_read_never_returns:
  "isl (fst (KinveyRequestConfig_headers depth byteCount cap cfg))"
proof (induction depth arbitrary: cfg)
  case 0
  show ?case by simp
next
  case (Suc depth)
  show ?case
    by (auto simp: Let_def split: sum.splits prod.splits)
qed

section \<open>Setting the app version\<close>

text \<open>
  Claim C6 says that the segments (1, 2, 3) give \<^verbatim>\<open>1.2.3\<close> and the segment (1) gives
  \<^verbatim>\<open>1\<close>. The second holds. The first does not: the setter reads the minor and the patch
  segment one place too far and assigns where it should append, so (1, 2, 3) gives
  \<^verbatim>\<open>.3\<close>, and (1, 2) gives \<^verbatim>\<open>1\<close>.
\<close>

theorem set_appVersion_segments:
  "KinveyRequestConfig_set_appVersion cfg [Num 1, Num 2, Num 3] =
     Inr (cfg\<lparr>configAppVersion := Str ''.3''\<rparr>) \<and>
   KinveyRequestConfig_set_appVersion cfg [Num 1, Num 2] =
     Inr (cfg\<lparr>configAppVersion := Str ''1''\<rparr>) \<and>
   KinveyRequestConfig_set_appVersion cfg [Num 1] =
     Inr (cfg\<lparr>configAppVersion := Str ''1''\<rparr>)"
  by (simp add: KinveyRequestConfig_set_appVersion_def at_index_def Let_def
        ToString_small trim_small del: ToString.simps)

section \<open>The cap on the custom properties\<close>

text \<open>
  Claim C7 says that a read of \<^verbatim>\<open>headers\<close> fails when the JSON form of the properties
  exceeds the cap and succeeds when it is one byte under it. The first half holds (the
  read fails from the cap on, with the error that names both sizes). The second does
  not: under the cap the getter calls itself until the call stack is exhausted, and the
  read ends in a RangeError.
\<close>

theorem headers_read_cap:
  "(cap \<le> byteCount (JSON_stringify (configProperties cfg)) \<longrightarrow>
      fst (KinveyRequestConfig_headers (Suc depth) byteCount cap cfg) =
        Inl (Error (tooLarge_message (byteCount (JSON_stringify (configProperties cfg))) cap))) \<and>
   (byteCount (JSON_stringify (configProperties cfg)) < cap \<longrightarrow>
      fst (KinveyRequestConfig_headers depth byteCount cap cfg) = Inl RangeError)"
proof
  obtain hs where hs: "(if truthy (configAppVersion cfg)
          then Headers_set (configHeaders cfg) (Str ''X-Kinvey-Client-App-Version'')
                 (configAppVersion cfg)
          else Headers_remove (configHeaders cfg) (Str ''X-Kinvey-Client-App-Version'')) = Inr hs"
    using app_version_step by blast
  show "cap \<le> byteCount (JSON_stringify (configProperties cfg)) \<longrightarrow>
      fst (KinveyRequestConfig_headers (Suc depth) byteCount cap cfg) =
        Inl (Error (tooLarge_message (byteCount (JSON_stringify (configProperties cfg))) cap))"
    by (simp add: hs Let_def)
next
  show "byteCount (JSON_stringify (configProperties cfg)) < cap \<longrightarrow>
      fst (KinveyRequestConfig_headers depth byteCount cap cfg) = Inl RangeError"
  proof (induction depth arbitrary: cfg)
    case 0
    show ?case by simp
  next
    case (Suc depth)
    obtain hs where hs: "(if truthy (configAppVersion cfg)
          then Headers_set (configHeaders cfg) (Str ''X-Kinvey-Client-App-Version'')
                 (configAppVersion cfg)
          else Headers_remove (configHeaders cfg) (Str ''X-Kinvey-Client-App-Version'')) = Inr hs"
      using app_version_step by blast
    from Suc[of "cfg\<lparr>configHeaders := hs\<rparr>"] show ?case
      by (auto simp: hs Let_def split: prod.splits sum.splits)
  qed
qed

text \<open>
  The theorem at the fallback cap of 2000 bytes, with properties whose JSON form has 2000
  bytes and 1999 bytes.
\<close>

theorem headers_read_cap_witness:
  "2000 \<le> length (the (JSON_stringify (Obj [(''a'', Str (replicate 1992 CHR ''x''))]))) \<and>
   fst (KinveyRequestConfig_headers (Suc 2) (\<lambda>s. case s of None \<Rightarrow> 0 | Some t \<Rightarrow> length t) 2000
     \<lparr>configMethod = ''GET'', configHeaders = \<lparr>headers = None\<rparr>, configUrl = ''https://x/y'',
      configBody = Null, configTimeout = Num 30, configFollowRedirect = True,
      configNoCache = False, authType = Str ''None'', query = None, configOnline = True,
      configCacheEnabled = True, configApiVersion = Num 4,
      configProperties = Obj [(''a'', Str (replicate 1992 CHR ''x''))],
      configAppVersion = Undefined, client = Null\<rparr>) =
     Inl (Error ''The custom properties are 2000 bytes.It must be less then 2000 bytes.'') \<and>
   length (the (JSON_stringify (Obj [(''a'', Str (replicate 1991 CHR ''x''))]))) = 1999 \<and>
   fst (KinveyRequestConfig_headers (Suc 2) (\<lambda>s. case s of None \<Rightarrow> 0 | Some t \<Rightarrow> length t) 2000
     \<lparr>configMethod = ''GET'', configHeaders = \<lparr>headers = None\<rparr>, configUrl = ''https://x/y'',
      configBody = Null, configTimeout = Num 30, configFollowRedirect = True,
      configNoCache = False, authType = Str ''None'', query = None, configOnline = True,
      configCacheEnabled = True, configApiVersion = Num 4,
      configProperties = Obj [(''a'', Str (replicate 1991 CHR ''x''))],
      configAppVersion = Undefined, client = Null\<rparr>) =
     Inl RangeError"
proof -
  let ?bc = "\<lambda>s::string option. case s of None \<Rightarrow> (0::nat) | Some t \<Rightarrow> length t"
  let ?c = "\<lambda>n. \<lparr>configMethod = ''GET'', configHeaders = \<lparr>headers = None\<rparr>, configUrl = ''https://x/y'',
      configBody = Null, configTimeout = Num 30, configFollowRedirect = True,
      configNoCache = False, authType = Str ''None'', query = None, configOnline = True,
      configCacheEnabled = True, configApiVersion = Num 4,
      configProperties = Obj [(''a'', Str (replicate n CHR ''x''))],
      configAppVersion = Undefined, client = Null\<rparr>"
  have esc: "json_escape CHR ''x'' = ''x''" by code_simp
  have q: "\<And>n. length (json_quote (replicate n CHR ''x'')) = n + 2"
    by (simp add: json_quote_def esc length_concat comp_def sum_list_replicate)
  have qa: "length (json_quote ''a'') = 3" by code_simp
  have j: "\<And>n. JSON_stringify (Obj [(''a'', Str (replicate n CHR ''x''))]) =
             Some (''{'' @ (json_quote ''a'' @ '':'' @ json_quote (replicate n CHR ''x'')) @ ''}'')"
    by simp
  have l: "\<And>n. ?bc (JSON_stringify (configProperties (?c n))) = n + 8"
    by (simp add: q qa del: JSON_stringify.simps add: j)
  have m: "tooLarge_message 2000 2000 =
      ''The custom properties are 2000 bytes.It must be less then 2000 bytes.''"
    by code_simp
  have big: "2000 \<le> ?bc (JSON_stringify (configProperties (?c 1992)))" by (simp only: l)
  have small: "?bc (JSON_stringify (configProperties (?c 1991))) < 2000" by (simp only: l)
  have e: "?bc (JSON_stringify (configProperties (?c 1992))) = 2000" by (simp only: l)
  have r1: "fst (KinveyRequestConfig_headers (Suc 2) ?bc 2000 (?c 1992)) =
      Inl (Error (tooLarge_message (?bc (JSON_stringify (configProperties (?c 1992)))) 2000))"
    by (rule headers_read_cap[where byteCount="?bc" and cap=2000 and cfg="?c 1992" and depth=2,
          THEN conjunct1, THEN mp, OF big])
  have r2: "fst (KinveyRequestConfig_headers (Suc 2) ?bc 2000 (?c 1991)) = Inl RangeError"
    by (rule headers_read_cap[where byteCount="?bc" and cap=2000 and cfg="?c 1991" and depth="Suc 2",
          THEN conjunct2, THEN mp, OF small])
  have c1: "2000 \<le> length (the (JSON_stringify (Obj [(''a'', Str (replicate 1992 CHR ''x''))])))"
    by (simp add: q qa del: JSON_stringify.simps add: j)
  have c3: "length (the (JSON_stringify (Obj [(''a'', Str (replicate 1991 CHR ''x''))]))) = 1999"
    by (simp add: q qa del: JSON_stringify.simps add: j)
  from r1 have r1': "fst (KinveyRequestConfig_headers (Suc 2) ?bc 2000 (?c 1992)) =
      Inl (Error ''The custom properties are 2000 bytes.It must be less then 2000 bytes.'')"
    by (simp only: e m)
  show ?thesis by (intro conjI c1 r1' c3 r2)
qed

section \<open>Reading the URL of a KinveyRequestConfig\<close>

text \<open>
  Claim C8. With \<^verbatim>\<open>noCache\<close> false a read of \<^verbatim>\<open>url\<close> returns the stored URL, with the
  query string appended when there is a query whose \<^verbatim>\<open>toQueryString()\<close> is not empty. The
  read leaves the configuration, and so the stored URL, as it was. The inherited getter
  adds the cache-busting parameter first, and the query string is appended to what it
  returns. For the stored URL \<^verbatim>\<open>https://x/y\<close> and the query \<^verbatim>\<open>{a: 1}\<close> the read gives
  \<^verbatim>\<open>https://x/y?a=1\<close>, given that the two packages serialize \<^verbatim>\<open>{a: 1}\<close> as \<^verbatim>\<open>a=1\<close> and
  append it after a question mark.
\<close>

theorem KinveyRequestConfig_url_read:
  "(\<not> configNoCache cfg \<longrightarrow>
      KinveyRequestConfig_url aq st rnd cfg =
        ((case query cfg of
            None \<Rightarrow> configUrl cfg
          | Some q \<Rightarrow> if isEmpty (toQueryString q) then configUrl cfg
                      else aq (configUrl cfg) (st (toQueryString q))), cfg)) \<and>
   snd (KinveyRequestConfig_url aq st rnd cfg) = cfg \<and>
   fst (RequestConfig_url aq st rnd cfg) =
     (if configNoCache cfg then aq (configUrl cfg) (st (Obj [(''_'', Str rnd)]))
      else configUrl cfg) \<and>
   fst (KinveyRequestConfig_url aq st rnd cfg) =
     (case query cfg of
        None \<Rightarrow> fst (RequestConfig_url aq st rnd cfg)
      | Some q \<Rightarrow> if isEmpty (toQueryString q) then fst (RequestConfig_url aq st rnd cfg)
                  else aq (fst (RequestConfig_url aq st rnd cfg)) (st (toQueryString q))) \<and>
   (\<not> configNoCache cfg \<longrightarrow> configUrl cfg = ''https://x/y'' \<longrightarrow>
    query cfg = Some (Query (Obj [(''a'', Num 1)])) \<longrightarrow>
    st (Obj [(''a'', Num 1)]) = ''a=1'' \<longrightarrow>
    aq ''https://x/y'' ''a=1'' = ''https://x/y?a=1'' \<longrightarrow>
      fst (KinveyRequestConfig_url aq st rnd cfg) = ''https://x/y?a=1'')"
  by (auto simp: KinveyRequestConfig_url_def RequestConfig_url_def Let_def split: option.splits)

theorem KinveyRequestConfig_url_read_witness:
  "KinveyRequestConfig_url (\<lambda>u q. u @ ''?'' @ q) (\<lambda>v. ''a=1'') ''k3j9''
     \<lparr>configMethod = ''GET'', configHeaders = \<lparr>headers = None\<rparr>, configUrl = ''https://x/y'',
      configBody = Null, configTimeout = Num 30, configFollowRedirect = True,
      configNoCache = False, authType = Str ''None'',
      query = Some (Query (Obj [(''a'', Num 1)])), configOnline = True,
      configCacheEnabled = True, configApiVersion = Num 4, configProperties = Obj [],
      configAppVersion = Undefined, client = Null\<rparr> =
   (''https://x/y?a=1'',
     \<lparr>configMethod = ''GET'', configHeaders = \<lparr>headers = None\<rparr>, configUrl = ''https://x/y'',
      configBody = Null, configTimeout = Num 30, configFollowRedirect = True,
      configNoCache = False, authType = Str ''None'',
      query = Some (Query (Obj [(''a'', Num 1)])), configOnline = True,
      configCacheEnabled = True, configApiVersion = Num 4, configProperties = Obj [],
      configAppVersion = Undefined, client = Null\<rparr>)"
proof -
  let ?c = "\<lparr>configMethod = ''GET'', configHeaders = \<lparr>headers = None\<rparr>, configUrl = ''https://x/y'',
      configBody = Null, configTimeout = Num 30, configFollowRedirect = True,
      configNoCache = False, authType = Str ''None'',
      query = Some (Query (Obj [(''a'', Num 1)])), configOnline = True,
      configCacheEnabled = True, configApiVersion = Num 4, configProperties = Obj [],
      configAppVersion = Undefined, client = Null\<rparr>"
  let ?aq = "\<lambda>u q. u @ ''?'' @ q"
  let ?st = "\<lambda>v::jsval. ''a=1''"
  have nc: "\<not> configNoCache ?c" by simp
  have u: "configUrl ?c = ''https://x/y''" by simp
  have q: "query ?c = Some (Query (Obj [(''a'', Num 1)]))" by simp
  have s: "?st (Obj [(''a'', Num 1)]) = ''a=1''" by simp
  have a: "?aq ''https://x/y'' ''a=1'' = ''https://x/y?a=1''" by simp
  note t = KinveyRequestConfig_url_read[where cfg="?c" and aq="?aq" and st="?st" and rnd="''k3j9''"]
  have f: "fst (KinveyRequestConfig_url ?aq ?st ''k3j9'' ?c) = ''https://x/y?a=1''"
    by (rule t[THEN conjunct2, THEN conjunct2, THEN conjunct2, THEN conjunct2,
          THEN mp, THEN mp, THEN mp, THEN mp, THEN mp, OF nc u q s a])
  have g: "snd (KinveyRequestConfig_url ?aq ?st ''k3j9'' ?c) = ?c"
    by (rule t[THEN conjunct2, THEN conjunct1])
  show ?thesis using f g by (simp only: prod_eq_iff fst_conv snd_conv)
qed

section \<open>The life cycle of a Request\<close>

text \<open>
  Claim C9. \<^verbatim>\<open>execute()\<close> on an idle request makes it executing; on an executing request
  it fails with the error that says so, hence a second call right after the first
  fails; and no sequence of calls on a request takes it from executing back to idle (a
  call that throws assigns nothing). The same holds of \<^verbatim>\<open>execute()\<close> of \<open>KinveyRequest\<close>
  whenever it returns.
\<close>

theorem Request_execute_lifecycle:
  "(\<not> executing r \<longrightarrow> Request_execute r = Inr (r\<lparr>executing := True\<rparr>)) \<and>
   (executing r \<longrightarrow> Request_execute r =
      Inl (Error ''Unable to execute the request. The request is already executing.'')) \<and>
   (\<not> executing r \<longrightarrow> Request_run [Execute, Execute] r =
      Inl (Error ''Unable to execute the request. The request is already executing.'')) \<and>
   (executing r \<longrightarrow> Request_run cs r = Inr r' \<longrightarrow> executing r') \<and>
   (KinveyRequest_execute k = Inr k' \<longrightarrow> executing k')"
proof -
  have "KinveyRequest_execute k = Inr k' \<longrightarrow> executing k'"
    by (auto simp: KinveyRequest_execute_def KinveyRequest_addHeader_def Request_execute_def
          split: sum.splits option.splits if_splits)
  then show ?thesis
    by (auto simp: Request_execute_def isExecuting_def dest: Request_run_executing)
qed

theorem Request_execute_lifecycle_witness:
  "Request_execute
     \<lparr>requestConfig = \<lparr>configMethod = ''GET'', configHeaders = \<lparr>headers = None\<rparr>,
        configUrl = ''https://x/y'', configBody = Null, configTimeout = Num 30,
        configFollowRedirect = True, configNoCache = False\<rparr>, executing = False\<rparr> =
     Inr \<lparr>requestConfig = \<lparr>configMethod = ''GET'', configHeaders = \<lparr>headers = None\<rparr>,
        configUrl = ''https://x/y'', configBody = Null, configTimeout = Num 30,
        configFollowRedirect = True, configNoCache = False\<rparr>, executing = True\<rparr> \<and>
   Request_run [Execute, Execute]
     \<lparr>requestConfig = \<lparr>configMethod = ''GET'', configHeaders = \<lparr>headers = None\<rparr>,
        configUrl = ''https://x/y'', configBody = Null, configTimeout = Num 30,
        configFollowRedirect = True, configNoCache = False\<rparr>, executing = False\<rparr> =
     Inl (Error ''Unable to execute the request. The request is already executing.'') \<and>
   Request_execute
     \<lparr>requestConfig = \<lparr>configMethod = ''GET'', configHeaders = \<lparr>headers = None\<rparr>,
        configUrl = ''https://x/y'', configBody = Null, configTimeout = Num 30,
        configFollowRedirect = True, configNoCache = False\<rparr>, executing = True\<rparr> =
     Inl (Error ''Unable to execute the request. The request is already executing.'') \<and>
   Request_run [Set_method (Str ''post''), Set_url ''https://x/z'', Set_body (Num 1)]
     \<lparr>requestConfig = \<lparr>configMethod = ''GET'', configHeaders = \<lparr>headers = None\<rparr>,
        configUrl = ''https://x/y'', configBody = Null, configTimeout = Num 30,
        configFollowRedirect = True, configNoCache = False\<rparr>, executing = True\<rparr> =
     Inr \<lparr>requestConfig = \<lparr>configMethod = ''POST'', configHeaders = \<lparr>headers = None\<rparr>,
        configUrl = ''https://x/z'', configBody = Num 1, configTimeout = Num 30,
        configFollowRedirect = True, configNoCache = False\<rparr>, executing = True\<rparr> \<and>
   executing \<lparr>requestConfig = \<lparr>configMethod = ''POST'', configHeaders = \<lparr>headers = None\<rparr>,
        configUrl = ''https://x/z'', configBody = Num 1, configTimeout = Num 30,
        configFollowRedirect = True, configNoCache = False\<rparr>, executing = True\<rparr> \<and>
   KinveyRequest_execute
     \<lparr>requestConfig = Str ''config'', executing = False, props = [(''authType'', Str ''None'')]\<rparr> =
     Inr \<lparr>requestConfig = Str ''config'', executing = True, props = [(''authType'', Str ''None'')]\<rparr> \<and>
   executing \<lparr>requestConfig = Str ''config'', executing = True, props = [(''authType'', Str ''None'')]\<rparr>"
proof -
  let ?c = "\<lparr>configMethod = ''GET'', configHeaders = \<lparr>headers = None\<rparr>,
        configUrl = ''https://x/y'', configBody = Null, configTimeout = Num 30,
        configFollowRedirect = True, configNoCache = False\<rparr>"
  let ?c' = "\<lparr>configMethod = ''POST'', configHeaders = \<lparr>headers = None\<rparr>,
        configUrl = ''https://x/z'', configBody = Num 1, configTimeout = Num 30,
        configFollowRedirect = True, configNoCache = False\<rparr>"
  let ?r0 = "\<lparr>requestConfig = ?c, executing = False\<rparr>"
  let ?r1 = "\<lparr>requestConfig = ?c, executing = True\<rparr>"
  let ?r2 = "\<lparr>requestConfig = ?c', executing = True\<rparr>"
  let ?cs = "[Set_method (Str ''post''), Set_url ''https://x/z'', Set_body (Num 1)]"
  let ?k = "\<lparr>requestConfig = Str ''config'', executing = False, props = [(''authType'', Str ''None'')]\<rparr>"
  let ?k' = "\<lparr>requestConfig = Str ''config'', executing = True, props = [(''authType'', Str ''None'')]\<rparr>"
  have i: "\<not> executing ?r0" by simp
  have x: "executing ?r1" by simp
  have run: "Request_run ?cs ?r1 = Inr ?r2" by code_simp
  have kx: "KinveyRequest_execute ?k = Inr ?k'" by code_simp
  note a = Request_execute_lifecycle[where r="?r0"]
  note b = Request_execute_lifecycle[where r="?r1" and cs="?cs" and r'="?r2" and k="?k" and k'="?k'"]
  have c1: "Request_execute ?r0 = Inr ?r1"
    using a[THEN conjunct1, THEN mp, OF i] by simp
  have c2: "Request_run [Execute, Execute] ?r0 =
     Inl (Error ''Unable to execute the request. The request is already executing.'')"
    by (rule a[THEN conjunct2, THEN conjunct2, THEN conjunct1, THEN mp, OF i])
  have c3: "Request_execute ?r1 =
     Inl (Error ''Unable to execute the request. The request is already executing.'')"
    by (rule b[THEN conjunct2, THEN conjunct1, THEN mp, OF x])
  have c4: "executing ?r2"
    by (rule b[THEN conjunct2, THEN conjunct2, THEN conjunct2, THEN conjunct1, THEN mp, THEN mp, OF x run])
  have c5: "executing ?k'"
    by (rule b[THEN conjunct2, THEN conjunct2, THEN conjunct2, THEN conjunct2, THEN mp, OF kx])
  show ?thesis by (intro conjI c1 c2 c3 run c4 kx c5)
qed

section \<open>Stored header values\<close>

text \<open>
  Claim C10 says that every stored header value is a string that is not empty. As
  amended: in a map built through the constructor and the methods (\<^verbatim>\<open>set\<close> with the name
  \<^verbatim>\<open>__proto__\<close> apart), every stored value is a string that is not empty, a String object,
  or \<^verbatim>\<open>undefined\<close> (which is what \<^verbatim>\<open>JSON.stringify\<close> gives for a truthy value such as a
  symbol); whatever the case mapping, \<^verbatim>\<open>has(n)\<close> is true exactly when \<^verbatim>\<open>get(n)\<close> is not
  \<^verbatim>\<open>undefined\<close>; \<^verbatim>\<open>set\<close> rejects a falsy name and a falsy value; and it stores a string and
  a String object as they are and any other value as its JSON text.
\<close>

theorem Headers_stored_values:
  "Headers_reachable h \<Longrightarrow> representable n \<Longrightarrow> representable v \<Longrightarrow>
   list_all (\<lambda>kv. stored_ok (snd kv)) (entries h) \<and>
   (case Headers_get lower h n of
      Inl e \<Rightarrow> Headers_has lower h n = Inl e
    | Inr x \<Rightarrow> Headers_has lower h n = Inr (x \<noteq> Undefined)) \<and>
   (\<not> truthy m \<or> \<not> truthy w \<longrightarrow>
      Headers_set h m w = Inl (Error ''A name and value must be provided to set a header.'')) \<and>
   (k \<noteq> [] \<longrightarrow> truthy v \<longrightarrow> k \<noteq> ''__proto__'' \<longrightarrow>
      (\<exists>h'. Headers_set h (Str k) v = Inr h' \<and> Headers_reachable h' \<and>
            map_of (entries h') k =
              Some (case v of Str s \<Rightarrow> Str s | StrObj s \<Rightarrow> StrObj s
                    | _ \<Rightarrow> (case JSON_stringify v of None \<Rightarrow> Undefined | Some s \<Rightarrow> Str s))))"
proof -
  assume r: "Headers_reachable h" and rv: "representable v"
  have ok: "list_all (\<lambda>kv. stored_ok (snd kv)) (entries h)" by (rule reachable_stored_ok[OF r])
  have ht: "header_text v = (case v of Str s \<Rightarrow> Str s | StrObj s \<Rightarrow> StrObj s
                    | _ \<Rightarrow> (case JSON_stringify v of None \<Rightarrow> Undefined | Some s \<Rightarrow> Str s))"
    by (cases v) (simp_all add: header_text_def)
  have s: "k \<noteq> [] \<longrightarrow> truthy v \<longrightarrow> k \<noteq> ''__proto__'' \<longrightarrow>
      (\<exists>h'. Headers_set h (Str k) v = Inr h' \<and> Headers_reachable h' \<and>
            map_of (entries h') k = Some (header_text v))"
  proof (intro impI)
    assume k: "k \<noteq> []" and t: "truthy v" and p: "k \<noteq> ''__proto__''"
    let ?h' = "h\<lparr>headers := Some (AList.update k (header_text v) (entries h))\<rparr>"
    have e: "Headers_set h (Str k) v = Inr ?h'" by (rule Headers_set_Str[OF k t p])
    have np: "name_string (Str k) \<noteq> Inr ''__proto__''" using p by (simp add: name_string_Str)
    have rk: "representable (Str k)" by simp
    have "Headers_reachable ?h'" by (rule reach_set[OF r rk rv np e])
    moreover have "map_of (entries ?h') k = Some (header_text v)"
      by (simp add: entries_update update_conv')
    ultimately show "\<exists>h'. Headers_set h (Str k) v = Inr h' \<and> Headers_reachable h' \<and>
            map_of (entries h') k = Some (header_text v)"
      using e by blast
  qed
  have f: "\<not> truthy m \<or> \<not> truthy w \<longrightarrow>
      Headers_set h m w = Inl (Error ''A name and value must be provided to set a header.'')"
    by (auto simp: Headers_set_def)
  from ok has_iff_get[OF ok, of lower n] s f show ?thesis unfolding ht by blast
qed

text \<open>
  The claim as stated fails for a symbol and for an empty String object: each is truthy,
  \<^verbatim>\<open>set\<close> accepts it, and the value stored is \<^verbatim>\<open>undefined\<close> for the one and the empty String
  object for the other.
\<close>

theorem Headers_stored_values_counterexample:
  "Headers_new Undefined = Inr \<lparr>headers = None\<rparr> \<and>
   truthy (Str ''x-tag'') \<and> truthy (Sym ''id'') \<and>
   Headers_set \<lparr>headers = None\<rparr> (Str ''x-tag'') (Sym ''id'') =
     Inr \<lparr>headers = Some [(''x-tag'', Undefined)]\<rparr> \<and>
   \<not> list_all (\<lambda>kv. nonempty_string (snd kv)) (entries \<lparr>headers = Some [(''x-tag'', Undefined)]\<rparr>) \<and>
   truthy (StrObj []) \<and>
   Headers_set \<lparr>headers = None\<rparr> (Str ''x-empty'') (StrObj []) =
     Inr \<lparr>headers = Some [(''x-empty'', StrObj [])]\<rparr> \<and>
   \<not> list_all (\<lambda>kv. nonempty_string (snd kv)) (entries \<lparr>headers = Some [(''x-empty'', StrObj [])]\<rparr>)"
  by code_simp

text \<open>
  The amended statement at a map that holds \<^verbatim>\<open>undefined\<close>, a string and an empty String
  object, with the case mapping on ASCII letters.
\<close>

theorem Headers_stored_values_witness:
  "Headers_reachable \<lparr>headers = Some [(''x-tag'', Undefined), (''accept'', Str ''a/b''), (''x-empty'', StrObj [])]\<rparr> \<and>
   list_all (\<lambda>kv. stored_ok (snd kv)) (entries \<lparr>headers = Some [(''x-tag'', Undefined), (''accept'', Str ''a/b''), (''x-empty'', StrObj [])]\<rparr>) \<and>
   Headers_get lower_ascii \<lparr>headers = Some [(''x-tag'', Undefined), (''accept'', Str ''a/b''), (''x-empty'', StrObj [])]\<rparr> (Str ''Accept'') = Inr (Str ''a/b'') \<and>
   Headers_has lower_ascii \<lparr>headers = Some [(''x-tag'', Undefined), (''accept'', Str ''a/b''), (''x-empty'', StrObj [])]\<rparr> (Str ''Accept'') = Inr True \<and>
   Headers_set \<lparr>headers = Some [(''x-tag'', Undefined), (''accept'', Str ''a/b''), (''x-empty'', StrObj [])]\<rparr> Null (Str ''v'') =
     Inl (Error ''A name and value must be provided to set a header.'') \<and>
   (\<exists>h'. Headers_set \<lparr>headers = Some [(''x-tag'', Undefined), (''accept'', Str ''a/b''), (''x-empty'', StrObj [])]\<rparr> (Str ''x-n'') (Num 5) = Inr h' \<and> Headers_reachable h' \<and>
         map_of (entries h') ''x-n'' = Some (Str ''5''))"
proof -
  let ?h = "\<lparr>headers = Some [(''x-tag'', Undefined), (''accept'', Str ''a/b''), (''x-empty'', StrObj [])]\<rparr>"
  have n: "Headers_new Undefined = Inr \<lparr>headers = None\<rparr>" by code_simp
  have s1: "Headers_set \<lparr>headers = None\<rparr> (Str ''x-tag'') (Sym ''id'') =
              Inr \<lparr>headers = Some [(''x-tag'', Undefined)]\<rparr>" by code_simp
  have s2: "Headers_set \<lparr>headers = Some [(''x-tag'', Undefined)]\<rparr> (Str ''accept'') (Str ''a/b'') =
              Inr \<lparr>headers = Some [(''x-tag'', Undefined), (''accept'', Str ''a/b'')]\<rparr>" by code_simp
  have s3: "Headers_set \<lparr>headers = Some [(''x-tag'', Undefined), (''accept'', Str ''a/b'')]\<rparr>
              (Str ''x-empty'') (StrObj []) = Inr ?h" by code_simp
  have p1: "name_string (Str ''x-tag'') \<noteq> Inr ''__proto__''"
    and p2: "name_string (Str ''accept'') \<noteq> Inr ''__proto__''"
    and p3: "name_string (Str ''x-empty'') \<noteq> Inr ''__proto__''"
    by (simp_all add: name_string_def)
  have r: "Headers_reachable ?h"
    by (rule reach_set[OF reach_set[OF reach_set[OF reach_new[OF n] _ _ p1 s1] _ _ p2 s2] _ _ p3 s3])
      simp_all
  have g: "Headers_get lower_ascii ?h (Str ''Accept'') = Inr (Str ''a/b'')" by code_simp
  have f: "\<not> truthy Null \<or> \<not> truthy (Str ''v'')" by simp
  have ne: "''x-n'' \<noteq> []" and np: "''x-n'' \<noteq> ''__proto__''" and tv: "truthy (Num 5)" by simp_all
  have rn: "representable (Str ''Accept'')" and rv: "representable (Num 5)" by simp_all
  have j: "JSON_stringify (Num 5) = Some ''5''" by code_simp
  note t = Headers_stored_values[OF r rn rv, where lower=lower_ascii and m=Null
      and w="Str ''v''" and k="''x-n''"]
  have c1: "list_all (\<lambda>kv. stored_ok (snd kv)) (entries ?h)" by (rule t[THEN conjunct1])
  have c2: "Headers_has lower_ascii ?h (Str ''Accept'') = Inr True"
    using t[THEN conjunct2, THEN conjunct1] by (simp only: g) simp
  have c3: "Headers_set ?h Null (Str ''v'') =
     Inl (Error ''A name and value must be provided to set a header.'')"
    by (rule t[THEN conjunct2, THEN conjunct2, THEN conjunct1, THEN mp, OF f])
  have c4: "\<exists>h'. Headers_set ?h (Str ''x-n'') (Num 5) = Inr h' \<and> Headers_reachable h' \<and>
         map_of (entries h') ''x-n'' = Some (Str ''5'')"
    using t[THEN conjunct2, THEN conjunct2, THEN conjunct2, THEN mp, THEN mp, THEN mp, OF ne tv np]
    by (simp only: j jsval.case option.case)
  show ?thesis by (intro conjI r c1 g c2 c3 c4)
qed

end
